theory Spec2Isabelle
  imports Main
begin

section \<open>JavaScript strings\<close>

text \<open>
  A JavaScript string is a sequence of UTF-16 code units; \<open>length\<close>, \<open>substring\<close>,
  \<open>split\<close>, \<open>includes\<close> and \<open>startsWith\<close> all count code units. A string is modelled as
  a list of code units, each a natural number below 65536. \<open>js\<close> turns an ASCII literal
  into such a list.
\<close>

type_synonym jsstring = "nat list"

definition js :: "string \<Rightarrow> jsstring" where
  "js s = map of_char s"

definition NL :: nat where
  "NL = 10"

definition DQ :: nat where
  "DQ = 34"

text \<open>
  \<open>isWhiteSpace\<close> is the set that \<open>String.prototype.trim\<close> strips and that \<open>\s\<close> matches in a
  regular expression: the WhiteSpace and LineTerminator code points of ECMAScript.
\<close>

definition isWhiteSpace :: "nat \<Rightarrow> bool" where
  "isWhiteSpace c \<longleftrightarrow>
     c = 0x09 \<or> c = 0x0A \<or> c = 0x0B \<or> c = 0x0C \<or> c = 0x0D \<or> c = 0x20 \<or> c = 0xA0 \<or>
     c = 0x1680 \<or> (0x2000 \<le> c \<and> c \<le> 0x200A) \<or> c = 0x2028 \<or> c = 0x2029 \<or>
     c = 0x202F \<or> c = 0x205F \<or> c = 0x3000 \<or> c = 0xFEFF"

text \<open>The line terminators, which \<open>.\<close> does not match in a regular expression.\<close>

definition isLineTerminator :: "nat \<Rightarrow> bool" where
  "isLineTerminator c \<longleftrightarrow> c = 0x0A \<or> c = 0x0D \<or> c = 0x2028 \<or> c = 0x2029"

definition trimStart :: "jsstring \<Rightarrow> jsstring" where
  "trimStart s = dropWhile isWhiteSpace s"

definition trimEnd :: "jsstring \<Rightarrow> jsstring" where
  "trimEnd s = rev (dropWhile isWhiteSpace (rev s))"

definition trim :: "jsstring \<Rightarrow> jsstring" where
  "trim s = trimEnd (trimStart s)"

definition startsWith :: "'a list \<Rightarrow> 'a list \<Rightarrow> bool" where
  "startsWith s p \<longleftrightarrow> take (length p) s = p"

definition endsWith :: "'a list \<Rightarrow> 'a list \<Rightarrow> bool" where
  "endsWith s p \<longleftrightarrow> startsWith (rev s) (rev p)"

text \<open>\<open>s.includes(t)\<close>: \<open>t\<close> occurs in \<open>s\<close> as a contiguous run of code units.\<close>

fun js_includes :: "'a list \<Rightarrow> 'a list \<Rightarrow> bool" where
  "js_includes [] t = (t = [])"
| "js_includes (x # xs) t = (startsWith (x # xs) t \<or> js_includes xs t)"

text \<open>\<open>s.split(c)\<close> for a separator of one code unit: never the empty array.\<close>

fun split_js :: "'a \<Rightarrow> 'a list \<Rightarrow> 'a list list" where
  "split_js c [] = [[]]"
| "split_js c (x # xs) =
     (if x = c then [] # split_js c xs
      else (case split_js c xs of [] \<Rightarrow> [[x]] | l # ls \<Rightarrow> (x # l) # ls))"

text \<open>\<open>xs.join(sep)\<close>.\<close>

fun join :: "'a list \<Rightarrow> 'a list list \<Rightarrow> 'a list" where
  "join sep [] = []"
| "join sep [x] = x"
| "join sep (x # y # ys) = x @ sep @ join sep (y # ys)"

text \<open>\<open>xs.slice(a, b)\<close> for non-negative indices; indices past the end are clamped.\<close>

definition slice :: "nat \<Rightarrow> nat \<Rightarrow> 'a list \<Rightarrow> 'a list" where
  "slice a b xs = take (b - a) (drop a xs)"

text \<open>
  \<open>toLowerCase\<close>. The Unicode table is modelled for the blocks this program's own
  strings come from: Basic Latin, the Latin-1 Supplement, Latin Extended-A, and the two
  letter-like signs whose lower case is a Latin letter (KELVIN SIGN, ANGSTROM SIGN).
  U+0130 lowers to the two code units \<open>i\<close> and U+0307, as in JavaScript. Every other code
  unit is left as it is; its real lower case is never an ASCII letter, a digit, white
  space, \<open>&\<close> or a code unit of the keyword tables below, so the functions of this
  program cannot tell the difference.
\<close>

definition lowerUnit :: "nat \<Rightarrow> jsstring" where
  "lowerUnit c =
     (if 0x41 \<le> c \<and> c \<le> 0x5A then [c + 32]
      else if 0xC0 \<le> c \<and> c \<le> 0xDE \<and> c \<noteq> 0xD7 then [c + 32]
      else if c = 0x130 then [0x69, 0x307]
      else if c = 0x178 then [0xFF]
      else if (0x100 \<le> c \<and> c \<le> 0x137 \<or> 0x14A \<le> c \<and> c \<le> 0x177) \<and> even c then [c + 1]
      else if (0x139 \<le> c \<and> c \<le> 0x148 \<or> 0x179 \<le> c \<and> c \<le> 0x17E) \<and> odd c then [c + 1]
      else if c = 0x212A then [0x6B]
      else if c = 0x212B then [0xE5]
      else [c])"

definition toLowerCase :: "jsstring \<Rightarrow> jsstring" where
  "toLowerCase s = concat (map lowerUnit s)"

text \<open>
  Property assignment \<open>obj[k] = v\<close> on a plain object: an existing key keeps its place,
  a new key goes last. (Keys that look like array indices are enumerated first by
  JavaScript; no enumeration in this program looks at such a key, since each one filters
  on the registry ids.)
\<close>

fun obj_set :: "'k \<Rightarrow> 'v \<Rightarrow> ('k \<times> 'v) list \<Rightarrow> ('k \<times> 'v) list" where
  "obj_set k v [] = [(k, v)]"
| "obj_set k v ((k', v') # kvs) =
     (if k = k' then (k, v) # kvs else (k', v') # obj_set k v kvs)"

text \<open>\<open>[...new Set(xs)]\<close>: the first occurrence of every element, in order.\<close>

fun dedup :: "'a list \<Rightarrow> 'a list" where
  "dedup [] = []"
| "dedup (x # xs) = x # dedup (filter (\<lambda>y. y \<noteq> x) xs)"

section \<open>The section registry\<close>

record section_def =
  sid :: jsstring
  title :: jsstring
  prompt :: jsstring

definition GDD_SECTIONS :: "section_def list" where
  "GDD_SECTIONS =
    [\<lparr>sid = js ''overview'', title = js ''Game Overview'',
      prompt = js ''Game overview, concept, genre, target audience, and unique selling points''\<rparr>,
     \<lparr>sid = js ''gameplay'', title = js ''Gameplay Mechanics'',
      prompt = js ''Core gameplay loop, controls, mechanics, and game systems''\<rparr>,
     \<lparr>sid = js ''story'', title = js ''Story & Narrative'',
      prompt = js ''Main story, narrative summary, story structure, and themes''\<rparr>,
     \<lparr>sid = js ''characters'', title = js ''Characters'',
      prompt = js ''Main character, supporting characters, enemies, and NPCs''\<rparr>,
     \<lparr>sid = js ''world'', title = js ''World & Level Design'',
      prompt = js ''Game world, locations, level design, and environment''\<rparr>,
     \<lparr>sid = js ''art'', title = js ''Art Style'',
      prompt = js ''Art style, color palette, UI/UX design, and visual references''\<rparr>,
     \<lparr>sid = js ''audio'', title = js ''Sound Design'',
      prompt = js ''Music style, sound effects, voice acting, and ambient sounds''\<rparr>,
     \<lparr>sid = js ''technical'', title = js ''Technical Requirements'',
      prompt = js ''Game engine, platform requirements, minimum/recommended system specs''\<rparr>,
     \<lparr>sid = js ''monetization'', title = js ''Monetization'',
      prompt = js ''Revenue model, pricing, DLC plans, and in-app purchases''\<rparr>,
     \<lparr>sid = js ''timeline'', title = js ''Timeline'',
      prompt = js ''Development phases, milestones, and release date plan''\<rparr>]"

definition registry_ids :: "jsstring list" where
  "registry_ids = map sid GDD_SECTIONS"

text \<open>\<open>GDD_SECTIONS.find(s => s.id === k)\<close>.\<close>

definition find_section :: "jsstring \<Rightarrow> section_def option" where
  "find_section k = find (\<lambda>s. sid s = k) GDD_SECTIONS"

section \<open>The document store\<close>

text \<open>
  The fields of \<open>state\<close> that the document logic reads or writes. \<open>p_id\<close> and
  \<open>p_description\<close> are optional because the markdown import builds a project without
  them. A section entry is \<open>{content}\<close> or \<open>{content, lastUpdated}\<close>.
\<close>

record project =
  p_id :: "nat option"
  p_name :: jsstring
  p_genre :: jsstring
  p_description :: "jsstring option"
  p_platforms :: "jsstring list"
  p_createdAt :: jsstring
  p_updatedAt :: jsstring

record section_data =
  content :: "jsstring option"
  lastUpdated :: "jsstring option"

record diagram =
  d_id :: nat
  d_type :: jsstring
  d_label :: jsstring
  d_code :: jsstring
  d_createdAt :: jsstring

datatype role = User | Assistant

type_synonym gdd = "(jsstring \<times> section_data) list"

record state =
  currentProject :: "project option"
  chatHistory :: "(role \<times> jsstring) list"
  gddData :: gdd
  generatingSection :: "jsstring option"
  diagramHistory :: "diagram list"
  sectionPrompts :: "(jsstring \<times> jsstring) list"

datatype error = TypeError

text \<open>The content of a section as the code reads it: \<open>gddData[k]?.content\<close>.\<close>

definition content_of :: "gdd \<Rightarrow> jsstring \<Rightarrow> jsstring option" where
  "content_of g k = (case map_of g k of None \<Rightarrow> None | Some d \<Rightarrow> content d)"

subsection \<open>createProject\<close>

text \<open>
  The form fields are arguments: the two text inputs, the checked platform boxes, the
  selected genre chips and the custom genre tags; \<open>nowMs\<close> is \<open>Date.now()\<close>, and
  \<open>iso1\<close>, \<open>iso2\<close> are the two readings of \<open>new Date().toISOString()\<close>.
\<close>

definition createProject ::
  "jsstring \<Rightarrow> jsstring \<Rightarrow> jsstring list \<Rightarrow> jsstring list \<Rightarrow> jsstring list \<Rightarrow>
   nat \<Rightarrow> jsstring \<Rightarrow> jsstring \<Rightarrow> state \<Rightarrow> state" where
  "createProject nameInput descInput checked selectedGenres customTags nowMs iso1 iso2 st =
    (let name = trim nameInput;
         desc = trim descInput;
         platforms = checked;
         allGenres = dedup (selectedGenres @ customTags);
         genre = (if length allGenres > 0 then join (js '', '') allGenres
                  else js ''Unspecified'')
     in if name = [] then st
        else st\<lparr>currentProject := Some
                  \<lparr>p_id = Some nowMs, p_name = name, p_genre = genre,
                   p_description = Some desc, p_platforms = platforms,
                   p_createdAt = iso1, p_updatedAt = iso2\<rparr>,
                gddData :=
                  [(js ''overview'',
                    \<lparr>content = Some (js ''# '' @ name @ [NL, NL] @ js ''**Genre:** '' @ genre @
                        [NL] @ js ''**Platforms:** '' @ join (js '', '') platforms @
                        [NL, NL] @ desc),
                     lastUpdated = None\<rparr>)]\<rparr>)"

subsection \<open>saveDiagram\<close>

definition DIAGRAM_TYPES :: "(jsstring \<times> jsstring) list" where
  "DIAGRAM_TYPES =
    [(js ''gameloop'', js ''Game Loop''), (js ''mechanics'', js ''Mechanic Relations''),
     (js ''progression'', js ''Progression System''), (js ''ui-flow'', js ''UI Flow''),
     (js ''class-diagram'', js ''Class Diagram''), (js ''state-diagram'', js ''State Diagram''),
     (js ''er-diagram'', js ''ER Diagram''), (js ''sequence'', js ''Sequence Diagram''),
     (js ''mindmap'', js ''Mind Map''), (js ''timeline'', js ''Timeline''),
     (js ''custom'', js ''Custom'')]"

text \<open>\<open>DIAGRAM_TYPES[type]?.label || 'Custom'\<close>.\<close>

definition diagram_label :: "jsstring \<Rightarrow> jsstring" where
  "diagram_label t = (case map_of DIAGRAM_TYPES t of Some l \<Rightarrow> l | None \<Rightarrow> js ''Custom'')"

text \<open>
  \<open>codeInput\<close> and \<open>t\<close> are the values of the two form controls. \<open>unshift\<close> puts the
  new entry first, \<open>pop\<close> removes the last entry, once.
\<close>

definition saveDiagram :: "jsstring \<Rightarrow> jsstring \<Rightarrow> nat \<Rightarrow> jsstring \<Rightarrow> state \<Rightarrow> state" where
  "saveDiagram codeInput t nowMs nowIso st =
    (let code = trim codeInput
     in if code = [] then st
        else
          let dg = \<lparr>d_id = nowMs, d_type = t, d_label = diagram_label t, d_code = code,
                    d_createdAt = nowIso\<rparr>;
              h = dg # diagramHistory st;
              h' = (if length h > 20 then butlast h else h)
          in st\<lparr>diagramHistory := h'\<rparr>)"

subsection \<open>Import: the structured snapshot\<close>

text \<open>
  The value that \<open>JSON.parse\<close> returns. An object is the list of its properties, with
  distinct keys. The code tests a number only for being zero, and the model keeps the
  whole numbers.
\<close>

datatype json =
  JNull | JBool bool | JNum int | JString jsstring | JArray "json list"
  | JObject "(jsstring \<times> json) list"

text \<open>
  \<open>data.k\<close> for \<open>k\<close> one of \<open>project\<close>, \<open>gdd\<close>: \<open>undefined\<close> (here \<open>None\<close>) on a
  number, a boolean, a string, an array, or an object without the key; a TypeError on
  \<open>null\<close>, which the caller of \<open>get_field\<close> tests first.
\<close>

fun get_field :: "json \<Rightarrow> jsstring \<Rightarrow> json option" where
  "get_field (JObject kvs) k = map_of kvs k"
| "get_field _ k = None"

fun truthy :: "json option \<Rightarrow> bool" where
  "truthy None = False"
| "truthy (Some JNull) = False"
| "truthy (Some (JBool b)) = b"
| "truthy (Some (JNum n)) = (n \<noteq> 0)"
| "truthy (Some (JString s)) = (s \<noteq> [])"
| "truthy (Some (JArray xs)) = True"
| "truthy (Some (JObject kvs)) = True"

text \<open>
  \<open>Inl TypeError\<close>: reading a property of \<open>null\<close> throws. \<open>Inr None\<close>: the function
  reports "Invalid JSON: missing project or gdd data." and returns \<open>null\<close>.
\<close>

definition parseJSONImport :: "json \<Rightarrow> error + json option" where
  "parseJSONImport data =
    (if data = JNull then Inl TypeError
     else if \<not> truthy (get_field data (js ''project'')) \<or> \<not> truthy (get_field data (js ''gdd''))
       then Inr None
     else Inr (Some data))"

text \<open>
  \<open>importProjectFile\<close> from the point where the parser for the file's extension has
  returned: \<open>result\<close> is the parser's result, \<open>None\<close> for \<open>null\<close>, with fields of the
  types of the store (the snapshot parser hands on the parsed value as it is, the
  markdown parser builds the record below). An absent optional field leaves the store's
  field alone. An exception of the parser is caught and leaves the store as it is.
\<close>

record import_result =
  r_project :: project
  r_gdd :: gdd
  r_sectionPrompts :: "(jsstring \<times> jsstring) list option"
  r_diagramHistory :: "diagram list option"
  r_chatHistory :: "(role \<times> jsstring) list option"

definition importProjectFile :: "jsstring \<Rightarrow> import_result option \<Rightarrow> state \<Rightarrow> state" where
  "importProjectFile nowIso result st =
    (case result of
       None \<Rightarrow> st
     | Some r \<Rightarrow>
         st\<lparr>currentProject := Some ((r_project r)\<lparr>p_updatedAt := nowIso\<rparr>),
            gddData := r_gdd r,
            sectionPrompts := (case r_sectionPrompts r of Some x \<Rightarrow> x | None \<Rightarrow> sectionPrompts st),
            diagramHistory := (case r_diagramHistory r of Some x \<Rightarrow> x | None \<Rightarrow> diagramHistory st),
            chatHistory := (case r_chatHistory r of Some x \<Rightarrow> x | None \<Rightarrow> chatHistory st)\<rparr>)"

subsection \<open>Restoring the persisted snapshot\<close>

text \<open>
  \<open>loadState\<close>: \<open>saved\<close> is the parsed snapshot, \<open>None\<close> when nothing is stored or the
  stored text does not parse (the exception is caught). A missing field falls back to
  its empty default. The chat log is not part of the snapshot.
\<close>

record snapshot =
  s_currentProject :: "project option"
  s_gddData :: "gdd option"
  s_diagramHistory :: "diagram list option"
  s_sectionPrompts :: "(jsstring \<times> jsstring) list option"

definition loadState :: "snapshot option \<Rightarrow> state \<Rightarrow> state" where
  "loadState saved st =
    (case saved of
       None \<Rightarrow> st
     | Some d \<Rightarrow>
         st\<lparr>currentProject := s_currentProject d,
            gddData := (case s_gddData d of Some x \<Rightarrow> x | None \<Rightarrow> []),
            diagramHistory := (case s_diagramHistory d of Some x \<Rightarrow> x | None \<Rightarrow> []),
            sectionPrompts := (case s_sectionPrompts d of Some x \<Rightarrow> x | None \<Rightarrow> [])\<rparr>)"

subsection \<open>Manual edit commit\<close>


section \<open>The relevance detector\<close>

text \<open>The two keyword tables, code unit for code unit as the source file has them.\<close>

definition sectionKeywords :: "(jsstring \<times> jsstring list) list" where
  "sectionKeywords =
    [(js ''overview'',
      [js ''overview'', js ''genel bak'' @ [0xC4, 0xB1, 0xC5, 0x178], js ''konsept'',
       js ''concept'', js ''vision'', js ''vizyon'', js ''game idea'', js ''oyun fikri'',
       js ''target audience'', js ''hedef kitle'', js ''unique selling'', js ''genre'',
       js ''t'' @ [0xC3, 0xBC] @ js ''r'']),
     (js ''gameplay'',
      [js ''gameplay'', js ''mechanic'', js ''mekanik'', js ''kontrol'', js ''control'',
       js ''combat'', js ''sava'' @ [0xC5, 0x178],
       js ''d'' @ [0xC3, 0xB6] @ js ''v'' @ [0xC3, 0xBC, 0xC5, 0x178], js ''game loop'',
       js ''oynan'' @ [0xC4, 0xB1, 0xC5, 0x178], js ''system'', js ''sistem'', js ''ability'',
       js ''yetenek'', js ''skill'', js ''beceri'', js ''movement'', js ''hareket'']),
     (js ''story'',
      [js ''story'', js ''hikaye'', js ''narrative'', js ''anlat'' @ [0xC4, 0xB1], js ''plot'',
       js ''olay '' @ [0xC3, 0xB6] @ js ''rg'' @ [0xC3, 0xBC] @ js ''s'' @ [0xC3, 0xBC],
       js ''lore'', js ''backstory'', js ''quest'', js ''g'' @ [0xC3, 0xB6] @ js ''rev'',
       js ''dialog'', js ''diyalog'', js ''theme'', js ''tema'', js ''ending'', js ''son'',
       js ''senaryo'', js ''scenario'']),
     (js ''characters'',
      [js ''character'', js ''karakter'', js ''protagonist'', js ''antagonist'',
       js ''d'' @ [0xC3, 0xBC, 0xC5, 0x178] @ js ''man'', js ''enemy'', js ''npc'', js ''hero'',
       js ''kahraman'', js ''villain'', js ''boss'', js ''companion'', js ''partner'',
       js ''ally'', js ''m'' @ [0xC3, 0xBC] @ js ''ttefik'']),
     (js ''world'',
      [js ''world'', js ''d'' @ [0xC3, 0xBC] @ js ''nya'', js ''level'', js ''seviye'',
       js ''b'' @ [0xC3, 0xB6] @ js ''l'' @ [0xC3, 0xBC] @ js ''m'', js ''map'', js ''harita'',
       js ''environment'', js ''ortam'', [0xC3, 0xA7] @ js ''evre'', js ''location'',
       js ''lokasyon'', js ''mekan'', js ''biome'', js ''terrain'', js ''arazi'', js ''zone'']),
     (js ''art'',
      [js ''art'', js ''sanat'', js ''visual'', js ''g'' @ [0xC3, 0xB6] @ js ''rsel'',
       js ''style'', js ''stil'', js ''ui'', js ''ux'', js ''design'',
       js ''tasar'' @ [0xC4, 0xB1] @ js ''m'', js ''color'', js ''renk'', js ''palette'',
       js ''palet'', js ''aesthetic'', js ''estetik'', js ''aray'' @ [0xC3, 0xBC] @ js ''z'',
       js ''interface'', js ''animation'', js ''animasyon'']),
     (js ''audio'',
      [js ''audio'', js ''ses'', js ''sound'', js ''m'' @ [0xC3, 0xBC] @ js ''zik'',
       js ''music'', js ''sfx'', js ''effect'', js ''voice'', js ''seslendirme'',
       js ''ambient'', js ''ortam sesi'', js ''soundtrack'']),
     (js ''technical'',
      [js ''technical'', js ''teknik'', js ''engine'', js ''motor'', js ''platform'',
       js ''requirement'', js ''gereksinim'', js ''performance'', js ''performans'',
       js ''optimization'', js ''network'', js ''a'' @ [0xC4, 0x178], js ''multiplayer'',
       js ''server'', js ''sunucu'', js ''spec'', js ''hardware'',
       js ''donan'' @ [0xC4, 0xB1] @ js ''m'']),
     (js ''monetization'',
      [js ''monetiz'', js ''gelir'', js ''revenue'', js ''price'', js ''fiyat'', js ''dlc'',
       js ''microtransaction'', js ''in-app'', [0xC3, 0xBC] @ js ''cret'', js ''business'',
       js ''i'' @ [0xC5, 0x178] @ js '' modeli'', js ''free-to-play'', js ''premium'',
       js ''subscription'', js ''abonelik'', js ''store'',
       js ''ma'' @ [0xC4, 0x178] @ js ''aza'']),
     (js ''timeline'',
      [js ''timeline'', js ''zaman'', js ''schedule'', js ''takvim'', js ''milestone'',
       js ''roadmap'', js ''yol haritas'' @ [0xC4, 0xB1], js ''deadline'', js ''sprint'',
       js ''phase'', js ''a'' @ [0xC5, 0x178] @ js ''ama'', js ''release'',
       js ''yay'' @ [0xC4, 0xB1] @ js ''n'', js ''launch'',
       [0xC3, 0xA7, 0xC4, 0xB1] @ js ''k'' @ [0xC4, 0xB1, 0xC5, 0x178]])]"

definition broadKeywords :: "jsstring list" where
  "broadKeywords =
    [js ''t'' @ [0xC3, 0xBC] @ js ''m'',
     js ''b'' @ [0xC3, 0xBC] @ js ''t'' @ [0xC3, 0xBC] @ js ''n'', js ''hepsi'', js ''genel'',
     js ''dokuman'', js ''document'', js ''entire'', js ''all section'', js ''whole'',
     js ''everything'', js ''review'', js ''incele'', [0xC3, 0xB6] @ js ''zet'', js ''summary'',
     js ''eksik'', js ''missing'', js ''gap'']"

text \<open>\<open>state.gddData[k]?.content?.trim()\<close> is truthy.\<close>

definition filled :: "gdd \<Rightarrow> jsstring \<Rightarrow> bool" where
  "filled g k = (case content_of g k of None \<Rightarrow> False | Some c \<Rightarrow> trim c \<noteq> [])"

text \<open>The number of keywords of one table row that the lower-cased message includes.\<close>

definition keywordScore :: "jsstring \<Rightarrow> jsstring list \<Rightarrow> nat" where
  "keywordScore lower keywords = fold (\<lambda>kw score. if js_includes lower kw then score + 1 else score) keywords 0"

text \<open>
  \<open>scores\<close> is filled in table order; \<open>Array.prototype.sort\<close> is stable, and the
  comparator \<open>b[1] - a[1]\<close> orders by descending score, which \<open>sort_key\<close> (an insertion
  sort) does with the negated score as key.
\<close>

definition detectRelevantSections :: "state \<Rightarrow> jsstring \<Rightarrow> jsstring list" where
  "detectRelevantSections st message =
    (let lower = toLowerCase message;
         isBroad = list_ex (\<lambda>kw. js_includes lower kw) broadKeywords
     in if isBroad then map sid (filter (\<lambda>s. filled (gddData st) (sid s)) GDD_SECTIONS)
        else
          let scores = fold (\<lambda>(sectionId, keywords) scores.
                               let score = keywordScore lower keywords
                               in if score > 0 then obj_set sectionId score scores else scores)
                            sectionKeywords [];
              matched = map fst (sort_key (\<lambda>e. - int (snd e)) scores)
          in matched)"

section \<open>Section-fill generation\<close>

text \<open>
  \<open>fmtDay\<close> is \<open>new Date(d).toLocaleDateString('en-US', ...)\<close> and \<open>todayStr\<close> the same for
  the current day. Each template literal is the list of its lines, joined by newlines. A
  project without a description prints \<open>undefined\<close>.
\<close>

definition promptContext :: "(jsstring \<Rightarrow> jsstring) \<Rightarrow> jsstring \<Rightarrow> project \<Rightarrow> jsstring" where
  "promptContext fmtDay todayStr p = join [NL]
    [[],
     js ''Game Name: '' @ p_name p,
     js ''Genre: '' @ p_genre p,
     js ''Platforms: '' @ join (js '', '') (p_platforms p),
     js ''Description: '' @ (case p_description p of Some d \<Rightarrow> d | None \<Rightarrow> js ''undefined''),
     js ''Project Created: '' @ fmtDay (p_createdAt p),
     js ''Today'' @ [39] @ js ''s Date: '' @ todayStr,
     []]"

definition updatePrompt ::
  "jsstring \<Rightarrow> jsstring \<Rightarrow> section_def \<Rightarrow> jsstring \<Rightarrow> jsstring \<Rightarrow> jsstring" where
  "updatePrompt context todayStr section existingContent customPrompt = join [NL]
    [[],
     context,
     [],
     js ''Here is the CURRENT content of the '' @ [DQ] @ title section @ [DQ] @ js '' section:'',
     [],
     js ''---'',
     existingContent,
     js ''---'',
     [],
     js ''The user wants to MODIFY/UPDATE this section with the following instructions:'',
     customPrompt,
     [],
     js ''IMPORTANT RULES:'',
     js ''- Keep the existing content structure and information intact'',
     js ''- Apply ONLY the changes the user requested'',
     js ''- Do NOT remove or rewrite parts that the user didn'' @ [39] @ js ''t mention'',
     js ''- Add new content where appropriate based on the user'' @ [39] @ js ''s instructions'',
     js ''- Maintain the same writing style and Markdown formatting'',
     js ''- Return the COMPLETE updated section (not just the changes)'',
     (if sid section = js ''timeline''
      then js ''- Today'' @ [39] @ js ''s date is '' @ todayStr @
           js ''. All dates must be realistic and in the future starting from today.''
      else []),
     [],
     js ''Write in Markdown format with headings and subheadings.'',
     []]"

text \<open>
  The other sections of a fresh prompt: every entry of \<open>gddData\<close>, in property order,
  whose key is a registry id other than the target and whose content is a non-empty
  string, cut to 500 code units.
\<close>

definition otherSections :: "gdd \<Rightarrow> jsstring \<Rightarrow> jsstring" where
  "otherSections g sectionId =
    join [] (filter (\<lambda>x. x \<noteq> [])
      (map (\<lambda>(key, val).
              (case find_section key of
                 None \<Rightarrow> []
               | Some sec \<Rightarrow>
                   (case content val of
                      None \<Rightarrow> []
                    | Some c \<Rightarrow>
                        if c \<noteq> [] \<and> key \<noteq> sectionId
                        then [NL] @ js ''### '' @ title sec @ [NL] @ take 500 c
                        else []))) g))"

definition freshPrompt ::
  "jsstring \<Rightarrow> jsstring \<Rightarrow> section_def \<Rightarrow> jsstring \<Rightarrow> jsstring \<Rightarrow> jsstring" where
  "freshPrompt context todayStr section others customPrompt = join [NL]
    [[],
     context,
     [],
     (if others \<noteq> [] then js ''Other GDD sections for reference:'' @ [NL] @ others else []),
     [],
     js ''Create the '' @ [DQ] @ title section @ [DQ] @
       js '' section of the GDD from scratch. This is a FRESH generation '' @
       [0xE2, 0x20AC, 0x201D] @ js '' ignore any previous version of this section.'',
     [],
     js ''This section should include: '' @ prompt section,
     (if sid section = js ''timeline''
      then [NL] @ js ''IMPORTANT: Today'' @ [39] @ js ''s date is '' @ todayStr @
           js ''. All milestone and phase dates MUST be realistic future dates starting from today. Do NOT use past dates or placeholder years.''
      else []),
     [],
     (if customPrompt \<noteq> []
      then js ''User'' @ [39] @ js ''s custom instructions:'' @ [NL] @ customPrompt @ [NL]
      else []),
     [],
     js ''Write in an organized way using Markdown format with headings and subheadings.'',
     []]"

text \<open>\<open>state.sectionPrompts[sectionId] || ''\<close>.\<close>

definition customPromptOf :: "state \<Rightarrow> jsstring \<Rightarrow> jsstring" where
  "customPromptOf st sectionId =
    (case map_of (sectionPrompts st) sectionId of Some c \<Rightarrow> c | None \<Rightarrow> [])"

text \<open>\<open>state.gddData[sectionId]?.content?.trim() || ''\<close>.\<close>

definition existingContentOf :: "state \<Rightarrow> jsstring \<Rightarrow> jsstring" where
  "existingContentOf st sectionId =
    (case content_of (gddData st) sectionId of Some c \<Rightarrow> trim c | None \<Rightarrow> [])"

text \<open>\<open>existingContent && customPrompt\<close>, as a truth value.\<close>

definition isUpdate :: "state \<Rightarrow> jsstring \<Rightarrow> bool" where
  "isUpdate st sectionId \<longleftrightarrow> existingContentOf st sectionId \<noteq> [] \<and> customPromptOf st sectionId \<noteq> []"

text \<open>The prompt that \<open>generateSection\<close> sends for a registry section of a project.\<close>

definition sectionPrompt ::
  "(jsstring \<Rightarrow> jsstring) \<Rightarrow> jsstring \<Rightarrow> state \<Rightarrow> project \<Rightarrow> section_def \<Rightarrow> jsstring" where
  "sectionPrompt fmtDay todayStr st p section =
    (let sectionId = sid section;
         customPrompt = customPromptOf st sectionId;
         existingContent = existingContentOf st sectionId;
         context = promptContext fmtDay todayStr p
     in if isUpdate st sectionId
        then updatePrompt context todayStr section existingContent customPrompt
        else freshPrompt context todayStr section (otherSections (gddData st) sectionId)
               customPrompt)"


section \<open>Import: headed markdown\<close>

subsection \<open>Normalising a title\<close>

text \<open>
  The first \<open>replace\<close> has the \<open>u\<close> flag, so it sees code points: a high surrogate
  followed by a low surrogate is one code point, any other code unit is its own.
\<close>

definition isHighSurrogate :: "nat \<Rightarrow> bool" where
  "isHighSurrogate c \<longleftrightarrow> 0xD800 \<le> c \<and> c \<le> 0xDBFF"

definition isLowSurrogate :: "nat \<Rightarrow> bool" where
  "isLowSurrogate c \<longleftrightarrow> 0xDC00 \<le> c \<and> c \<le> 0xDFFF"

definition codePoint :: "nat \<Rightarrow> nat \<Rightarrow> nat" where
  "codePoint h l = 0x10000 + (h - 0xD800) * 0x400 + (l - 0xDC00)"

definition isEmoji :: "nat \<Rightarrow> bool" where
  "isEmoji cp \<longleftrightarrow>
     0x1F600 \<le> cp \<and> cp \<le> 0x1F6FF \<or> 0x1F900 \<le> cp \<and> cp \<le> 0x1F9FF \<or>
     0x2600 \<le> cp \<and> cp \<le> 0x26FF \<or> 0x2700 \<le> cp \<and> cp \<le> 0x27BF \<or>
     0xFE00 \<le> cp \<and> cp \<le> 0xFE0F \<or> 0x1F000 \<le> cp \<and> cp \<le> 0x1FFFF"

fun stripEmoji :: "jsstring \<Rightarrow> jsstring" where
  "stripEmoji [] = []"
| "stripEmoji [c] = (if isEmoji c then [] else [c])"
| "stripEmoji (h # l # cs) =
     (if isHighSurrogate h \<and> isLowSurrogate l
      then (if isEmoji (codePoint h l) then stripEmoji cs else h # l # stripEmoji cs)
      else if isEmoji h then stripEmoji (l # cs)
      else h # stripEmoji (l # cs))"

text \<open>The class \<open>[a-z0-9\s&]\<close>.\<close>

definition keepChar :: "nat \<Rightarrow> bool" where
  "keepChar c \<longleftrightarrow> 0x61 \<le> c \<and> c \<le> 0x7A \<or> 0x30 \<le> c \<and> c \<le> 0x39 \<or> isWhiteSpace c \<or> c = 0x26"

text \<open>\<open>s.replace(/\s+/g, r)\<close>: every maximal run of white space becomes \<open>r\<close>.\<close>

function replaceSpaces :: "jsstring \<Rightarrow> jsstring \<Rightarrow> jsstring" where
  "replaceSpaces r [] = []"
| "replaceSpaces r (c # cs) =
     (if isWhiteSpace c then r @ replaceSpaces r (dropWhile isWhiteSpace cs)
      else c # replaceSpaces r cs)"
  by pat_completeness auto
termination
  by (relation "measure (\<lambda>(r, s). length s)") (auto simp: le_imp_less_Suc length_dropWhile_le)

definition normalizeSectionTitle :: "jsstring \<Rightarrow> jsstring" where
  "normalizeSectionTitle t =
     trim (replaceSpaces (js '' '') (filter keepChar (stripEmoji (toLowerCase t))))"

subsection \<open>Matching a heading against the registry\<close>

text \<open>
  \<open>knownSectionTitles\<close> is created by \<open>{}\<close>, so reading \<open>knownSectionTitles[k]\<close> finds
  the object's own properties and then those it inherits from \<open>Object.prototype\<close>. A
  value read this way is a registry id, a built-in function, or the prototype object;
  \<open>propertyKey\<close> is the string such a value becomes when it is used as a property key.
\<close>

datatype jsval = Str jsstring | NativeFunction jsstring | ObjectPrototype

definition inheritedProperty :: "jsstring \<Rightarrow> jsval option" where
  "inheritedProperty k =
     (if k = js ''constructor'' then Some (NativeFunction (js ''Object''))
      else if k \<in> set [js ''hasOwnProperty'', js ''isPrototypeOf'', js ''propertyIsEnumerable'',
                        js ''toLocaleString'', js ''toString'', js ''valueOf'',
                        js ''__defineGetter__'', js ''__defineSetter__'',
                        js ''__lookupGetter__'', js ''__lookupSetter__'']
        then Some (NativeFunction k)
      else if k = js ''__proto__'' then Some ObjectPrototype
      else None)"

definition getProperty :: "(jsstring \<times> jsstring) list \<Rightarrow> jsstring \<Rightarrow> jsval option" where
  "getProperty obj k = (case map_of obj k of Some v \<Rightarrow> Some (Str v) | None \<Rightarrow> inheritedProperty k)"

fun truthyVal :: "jsval \<Rightarrow> bool" where
  "truthyVal (Str s) = (s \<noteq> [])"
| "truthyVal (NativeFunction n) = True"
| "truthyVal ObjectPrototype = True"

fun propertyKey :: "jsval \<Rightarrow> jsstring" where
  "propertyKey (Str s) = s"
| "propertyKey (NativeFunction n) = js ''function '' @ n @ js ''() { [native code] }''"
| "propertyKey ObjectPrototype = js ''[object Object]''"

definition knownSectionTitles :: "(jsstring \<times> jsstring) list" where
  "knownSectionTitles =
     fold (\<lambda>s known. obj_set (normalizeSectionTitle (title s)) (sid s) known) GDD_SECTIONS []"

text \<open>
  The direct read, then the two loops over the entries, which test the same equality.
  \<open>None\<close> is \<open>null\<close>.
\<close>

definition isGddSectionHeading :: "jsstring \<Rightarrow> (jsstring \<times> jsstring) list \<Rightarrow> jsval option" where
  "isGddSectionHeading heading known =
    (let normalized = normalizeSectionTitle heading;
         direct = getProperty known normalized
     in if (case direct of Some v \<Rightarrow> truthyVal v | None \<Rightarrow> False) then direct
        else (case find (\<lambda>(t, i). normalized = t) known of
                Some (t, i) \<Rightarrow> Some (Str i)
              | None \<Rightarrow>
                  (case find (\<lambda>(t, i). normalized = t) known of
                     Some (t, i) \<Rightarrow> Some (Str i)
                   | None \<Rightarrow> None)))"

fun decimal :: "nat \<Rightarrow> jsstring" where
  "decimal n = (if n < 10 then [48 + n] else decimal (n div 10) @ [48 + n mod 10])"

declare decimal.simps [simp del]

definition fallbackSectionId :: "nat \<Rightarrow> jsstring \<Rightarrow> jsstring" where
  "fallbackSectionId nowMs heading =
    (let s = take 30 (replaceSpaces (js ''-'') (normalizeSectionTitle heading))
     in if s \<noteq> [] then s else js ''custom-'' @ decimal nowMs)"

subsection \<open>The regular expressions of the parser\<close>

text \<open>
  With the \<open>i\<close> flag and without the \<open>u\<close> flag, an ASCII letter of a pattern matches
  its two ASCII cases and nothing else.
\<close>

definition asciiLower :: "nat \<Rightarrow> nat" where
  "asciiLower c = (if 0x41 \<le> c \<and> c \<le> 0x5A then c + 32 else c)"

text \<open>\<open>s.replace(/^#\s+/, '')\<close> and \<open>s.replace(/^##\s+/, '')\<close>, \<open>marks\<close> being the hashes.\<close>

definition stripHeadingMarks :: "jsstring \<Rightarrow> jsstring \<Rightarrow> jsstring" where
  "stripHeadingMarks marks s =
    (let rest = drop (length marks) s
     in if startsWith s marks \<and> rest \<noteq> [] \<and> isWhiteSpace (hd rest)
        then dropWhile isWhiteSpace rest else s)"

definition isDash :: "nat \<Rightarrow> bool" where
  "isDash c \<longleftrightarrow> c = 0x2D \<or> c = 0x2013 \<or> c = 0x2014"

text \<open>
  The replacement of a dash (hyphen, en dash or em dash) with the white space around it
  and the phrase \<open>Game Design Document\<close> at the end of the string: the phrase ends the
  string, the dash is the last code unit before it that is not white space, and the
  match starts at the white space in front of the dash.
\<close>

definition stripGddSuffix :: "jsstring \<Rightarrow> jsstring" where
  "stripGddSuffix s =
    (let phrase = js ''game design document'';
         n = length s - length phrase;
         a = trimEnd (take n s)
     in if length phrase \<le> length s \<and> map asciiLower (drop n s) = phrase \<and> a \<noteq> [] \<and>
           isDash (last a)
        then trimEnd (butlast a) else s)"

text \<open>
  \<open>\s*(.+)\<close> on the text after a label: the group starts at the first code unit that
  is not white space and runs to the next line terminator. When only white space is
  left, backtracking gives the group the last code unit that is not a line terminator.
\<close>

definition captureRest :: "jsstring \<Rightarrow> jsstring option" where
  "captureRest r =
    (let rest = dropWhile isWhiteSpace r
     in if rest \<noteq> [] then Some (takeWhile (\<lambda>c. \<not> isLineTerminator c) rest)
        else (case filter (\<lambda>c. \<not> isLineTerminator c) r of
                [] \<Rightarrow> None
              | x # xs \<Rightarrow> Some [last (x # xs)]))"

text \<open>
  \<open>line.match(/^LABEL\s*(.+)/i)\<close>, the label given in lower case; \<open>hasLabel\<close> says
  that the line starts with the label, in either ASCII case.
\<close>

definition hasLabel :: "jsstring \<Rightarrow> jsstring \<Rightarrow> bool" where
  "hasLabel label line \<longleftrightarrow> map asciiLower (take (length label) line) = label"

definition matchLabel :: "jsstring \<Rightarrow> jsstring \<Rightarrow> jsstring option" where
  "matchLabel label line =
    (if hasLabel label line then captureRest (drop (length label) line) else None)"

definition matchPlatforms :: "jsstring \<Rightarrow> jsstring option" where
  "matchPlatforms line =
    (case matchLabel (js ''**platforms:**'') line of
       Some m \<Rightarrow> Some m
     | None \<Rightarrow> matchLabel (js ''**platform:**'') line)"

subsection \<open>parseMarkdownImport\<close>

definition isH1 :: "jsstring \<Rightarrow> bool" where
  "isH1 line \<longleftrightarrow> startsWith line (js ''# '') \<and> \<not> startsWith line (js ''## '')"

definition isH2 :: "jsstring \<Rightarrow> bool" where
  "isH2 line \<longleftrightarrow> startsWith line (js ''## '') \<and> \<not> startsWith line (js ''### '')"

text \<open>The first loop: the first level-1 heading among the first ten lines.\<close>

definition importedName :: "jsstring list \<Rightarrow> jsstring" where
  "importedName lines =
    (case find isH1 (map trim (take 10 lines)) of
       None \<Rightarrow> js ''Imported Project''
     | Some line \<Rightarrow> trim (stripGddSuffix (stripHeadingMarks (js ''#'') line)))"

text \<open>
  The second loop, over the first twenty lines; a later match replaces an earlier one.
  \<open>parseDate\<close> is \<open>new Date(s).toISOString()\<close>, \<open>None\<close> when it throws.
\<close>

definition metaStep ::
  "(jsstring \<Rightarrow> jsstring option) \<Rightarrow> jsstring \<Rightarrow> jsstring \<times> jsstring \<times> jsstring list \<Rightarrow>
   jsstring \<times> jsstring \<times> jsstring list" where
  "metaStep parseDate raw m =
    (case m of (createdAt, genre, platforms) \<Rightarrow>
       let line = trim raw;
           createdAt' = (case matchLabel (js ''**created:**'') line of
                           Some x \<Rightarrow> (case parseDate x of Some d \<Rightarrow> d | None \<Rightarrow> createdAt)
                         | None \<Rightarrow> createdAt);
           genre' = (case matchLabel (js ''**genre:**'') line of
                       Some x \<Rightarrow> trim x | None \<Rightarrow> genre);
           platforms' = (case matchPlatforms line of
                           Some x \<Rightarrow> map trim (split_js 0x2C x) | None \<Rightarrow> platforms)
       in (createdAt', genre', platforms'))"

definition importedMeta ::
  "(jsstring \<Rightarrow> jsstring option) \<Rightarrow> jsstring \<Rightarrow> jsstring list \<Rightarrow>
   jsstring \<times> jsstring \<times> jsstring list" where
  "importedMeta parseDate nowIso lines = fold (metaStep parseDate) (take 20 lines) (nowIso, [], [])"

text \<open>
  Pass 1. \<open>headingOfLine\<close> is the section value a line contributes: the line, trimmed,
  is a level-2 heading and \<open>isGddSectionHeading\<close> returns something truthy for it.
\<close>

definition headingOfLine :: "jsstring \<Rightarrow> jsval option" where
  "headingOfLine raw =
    (let trimmed = trim raw
     in if isH2 trimmed
        then (case isGddSectionHeading (trim (stripHeadingMarks (js ''##'') trimmed))
                     knownSectionTitles of
                Some v \<Rightarrow> if truthyVal v then Some v else None
              | None \<Rightarrow> None)
        else None)"

fun scanBoundaries :: "nat \<Rightarrow> jsstring list \<Rightarrow> (nat \<times> jsval) list" where
  "scanBoundaries i [] = []"
| "scanBoundaries i (l # ls) =
     (case headingOfLine l of
        Some v \<Rightarrow> (i, v) # scanBoundaries (Suc i) ls
      | None \<Rightarrow> scanBoundaries (Suc i) ls)"

text \<open>
  Pass 2: the lines between one boundary and the next, or the end. \<open>storeLines\<close> is
  the end of the loop body: the lines are joined and trimmed, and stored when something
  is left.
\<close>

definition storeLines :: "jsstring \<Rightarrow> jsval \<Rightarrow> jsstring list \<Rightarrow> gdd \<Rightarrow> gdd" where
  "storeLines nowIso v contentLines g =
    (let c = trim (join [NL] contentLines)
     in if c \<noteq> [] then obj_set (propertyKey v) \<lparr>content = Some c, lastUpdated = Some nowIso\<rparr> g
        else g)"

fun collectSections ::
  "jsstring \<Rightarrow> jsstring list \<Rightarrow> (nat \<times> jsval) list \<Rightarrow> gdd \<Rightarrow> gdd" where
  "collectSections nowIso lines [] g = g"
| "collectSections nowIso lines ((i, v) # bs) g =
     (let startLine = i + 1;
          endLine = (case bs of [] \<Rightarrow> length lines | (j, w) # bs' \<Rightarrow> j)
      in collectSections nowIso lines bs
           (storeLines nowIso v (slice startLine endLine lines) g))"

text \<open>
  The same pass on a file given as segments, each a heading line, the value pass 1 found
  for it, and the lines below it; \<open>rest\<close> is what follows the last segment.
\<close>

fun storeSegments ::
  "jsstring \<Rightarrow> (jsstring \<times> jsval \<times> jsstring list) list \<Rightarrow> jsstring list \<Rightarrow> gdd \<Rightarrow> gdd" where
  "storeSegments nowIso [] rest g = g"
| "storeSegments nowIso ((h, v, body) # segs) rest g =
     storeSegments nowIso segs rest
       (storeLines nowIso v (body @ (if segs = [] then rest else [])) g)"

text \<open>
  The fallback, run when pass 1 found nothing: split on level-1 headings. The loop
  state is the current section, the lines gathered for it, and the map.
\<close>

definition fallbackStep ::
  "nat \<Rightarrow> jsstring \<Rightarrow> jsstring \<Rightarrow> jsval option \<times> jsstring list \<times> gdd \<Rightarrow>
   jsval option \<times> jsstring list \<times> gdd" where
  "fallbackStep nowMs nowIso raw st =
    (case st of (currentSectionId, currentContent, g) \<Rightarrow>
       let trimmed = trim raw
       in if isH1 trimmed
          then
            let g' = (case currentSectionId of
                        Some cur \<Rightarrow> obj_set (propertyKey cur)
                          \<lparr>content = Some (trim (join [NL] currentContent)),
                           lastUpdated = Some nowIso\<rparr> g
                      | None \<Rightarrow> g);
                heading = trim (stripHeadingMarks (js ''#'') trimmed);
                sectionId = (case isGddSectionHeading heading knownSectionTitles of
                               Some v \<Rightarrow> if truthyVal v then v
                                         else Str (fallbackSectionId nowMs heading)
                             | None \<Rightarrow> Str (fallbackSectionId nowMs heading))
            in (Some sectionId, [], g')
          else if currentSectionId \<noteq> None then (currentSectionId, currentContent @ [raw], g)
          else st)"

definition fallbackSections :: "nat \<Rightarrow> jsstring \<Rightarrow> jsstring list \<Rightarrow> gdd \<Rightarrow> gdd" where
  "fallbackSections nowMs nowIso lines g =
    (case fold (fallbackStep nowMs nowIso) lines (None, [], g) of
       (currentSectionId, currentContent, g') \<Rightarrow>
         (case currentSectionId of
            Some cur \<Rightarrow>
              if length currentContent > 0
              then obj_set (propertyKey cur)
                     \<lparr>content = Some (trim (join [NL] currentContent)),
                      lastUpdated = Some nowIso\<rparr> g'
              else g'
          | None \<Rightarrow> g'))"

text \<open>
  \<open>nowMs\<close> is \<open>Date.now()\<close> and \<open>nowIso\<close> is \<open>new Date().toISOString()\<close>. The project
  that the parser builds has neither an \<open>id\<close> nor a \<open>description\<close>.
\<close>

definition parseMarkdownImport ::
  "(jsstring \<Rightarrow> jsstring option) \<Rightarrow> nat \<Rightarrow> jsstring \<Rightarrow> jsstring \<Rightarrow> import_result" where
  "parseMarkdownImport parseDate nowMs nowIso mdContent =
    (let lines = split_js NL mdContent;
         projectName = importedName lines;
         (createdAt, genre, platforms) = importedMeta parseDate nowIso lines;
         sectionBoundaries = scanBoundaries 0 lines;
         g1 = collectSections nowIso lines sectionBoundaries [];
         g2 = (if length sectionBoundaries = 0 then fallbackSections nowMs nowIso lines g1
               else g1)
     in \<lparr>r_project =
           \<lparr>p_id = None, p_name = projectName,
            p_genre = (if genre \<noteq> [] then genre else js ''Unknown''),
            p_description = None,
            p_platforms = (if length platforms > 0 then platforms else [js ''PC'']),
            p_createdAt = createdAt, p_updatedAt = nowIso\<rparr>,
         r_gdd = g2, r_sectionPrompts = None, r_diagramHistory = None,
         r_chatHistory = None\<rparr>)"

section \<open>Markdown export\<close>

text \<open>\<open>fmt\<close> is \<open>new Date(d).toLocaleDateString('en-US', ...)\<close> with hours and minutes.\<close>

definition formatDate :: "(jsstring \<Rightarrow> jsstring) \<Rightarrow> jsstring \<Rightarrow> jsstring" where
  "formatDate fmt dateString = (if dateString = [] then js ''-'' else fmt dateString)"

definition placeholder :: jsstring where
  "placeholder = js ''*This section has not been created yet.*''"

definition exportHeader :: "(jsstring \<Rightarrow> jsstring) \<Rightarrow> project \<Rightarrow> jsstring" where
  "exportHeader fmt p =
     js ''# '' @ p_name p @ js '' - Game Design Document'' @ [NL, NL] @
     js ''**Created:** '' @ formatDate fmt (p_createdAt p) @ [NL] @
     js ''**Last Updated:** '' @ formatDate fmt (p_updatedAt p) @ [NL] @
     js ''**Genre:** '' @ p_genre p @ [NL] @
     js ''**Platforms:** '' @ join (js '', '') (p_platforms p) @ [NL, NL] @
     js ''---'' @ [NL, NL]"

text \<open>What one round of the \<open>forEach\<close> appends for a section.\<close>

definition exportBody :: "gdd \<Rightarrow> section_def \<Rightarrow> jsstring" where
  "exportBody g section =
    (case content_of g (sid section) of
       Some c \<Rightarrow> if c \<noteq> [] then c else placeholder
     | None \<Rightarrow> placeholder)"

definition exportSection :: "gdd \<Rightarrow> section_def \<Rightarrow> jsstring" where
  "exportSection g section =
     js ''## '' @ title section @ [NL, NL] @ exportBody g section @ [NL, NL]"

definition generateMarkdownExport :: "(jsstring \<Rightarrow> jsstring) \<Rightarrow> project \<Rightarrow> gdd \<Rightarrow> jsstring" where
  "generateMarkdownExport fmt p g =
     fold (\<lambda>section md. md @ exportSection g section) GDD_SECTIONS (exportHeader fmt p)"

section \<open>Documents that survive the round trip\<close>

text \<open>
  \<open>oneLine\<close>: a string without a line feed. \<open>headerOneLine\<close>: the metadata that the
  export prints in its preamble has no line feed. \<open>roundTripContent\<close>: a section content
  that is not empty, is its own trim, and has no line that pass 1 takes for a section
  heading.
\<close>

definition oneLine :: "jsstring \<Rightarrow> bool" where
  "oneLine s \<longleftrightarrow> NL \<notin> set s"

definition headerOneLine :: "(jsstring \<Rightarrow> jsstring) \<Rightarrow> project \<Rightarrow> bool" where
  "headerOneLine fmt p \<longleftrightarrow>
     oneLine (p_name p) \<and> oneLine (p_genre p) \<and> oneLine (join (js '', '') (p_platforms p)) \<and>
     oneLine (formatDate fmt (p_createdAt p)) \<and> oneLine (formatDate fmt (p_updatedAt p))"

definition roundTripContent :: "jsstring \<Rightarrow> bool" where
  "roundTripContent c \<longleftrightarrow>
     c \<noteq> [] \<and> trim c = c \<and> list_all (\<lambda>l. headingOfLine l = None) (split_js NL c)"

section \<open>Concrete inputs\<close>

definition emptyState :: state where
  "emptyState = \<lparr>currentProject = None, chatHistory = [], gddData = [],
     generatingSection = None, diagramHistory = [], sectionPrompts = []\<rparr>"

definition sampleProject :: project where
  "sampleProject = \<lparr>p_id = Some 1, p_name = js ''Nebula Run'', p_genre = js ''Unspecified'',
     p_description = Some (js ''A runner''), p_platforms = [js ''PC''],
     p_createdAt = js ''2026-01-01T00:00:00.000Z'', p_updatedAt = js ''2026-01-02T00:00:00.000Z''\<rparr>"

definition sampleDiagram :: "nat \<Rightarrow> diagram" where
  "sampleDiagram n = \<lparr>d_id = n, d_type = js ''custom'', d_label = js ''Custom'',
     d_code = js ''graph TD'', d_createdAt = js ''2026-01-01T00:00:00.000Z''\<rparr>"

definition artSection :: section_def where
  "artSection = \<lparr>sid = js ''art'', title = js ''Art Style'',
     prompt = js ''Art style, color palette, UI/UX design, and visual references''\<rparr>"

text \<open>
  A project whose \<open>art\<close> section starts with a tab, and one whose \<open>art\<close> section is
  three spaces; both have a custom instruction for the section.
\<close>

definition tabState :: state where
  "tabState = emptyState\<lparr>currentProject := Some sampleProject,
     gddData := [(js ''art'', \<lparr>content = Some (9 # js ''Pixel art''), lastUpdated = None\<rparr>)],
     sectionPrompts := [(js ''art'', js ''add a palette'')]\<rparr>"

definition blankState :: state where
  "blankState = emptyState\<lparr>currentProject := Some sampleProject,
     gddData := [(js ''art'', \<lparr>content = Some (js ''   ''), lastUpdated = None\<rparr>)],
     sectionPrompts := [(js ''art'', js ''add a palette'')]\<rparr>"

text \<open>A project with one filled section.\<close>

definition overviewState :: state where
  "overviewState = emptyState\<lparr>currentProject := Some sampleProject,
     gddData := [(js ''overview'', \<lparr>content = Some (js ''A pitch''), lastUpdated = None\<rparr>)]\<rparr>"

text \<open>A document whose ten sections all hold the same line of text.\<close>

definition fullGdd :: gdd where
  "fullGdd = map (\<lambda>sec. (sid sec, \<lparr>content = Some (js ''To be written''), lastUpdated = None\<rparr>))
     GDD_SECTIONS"

text \<open>A snapshot with 21 saved diagrams, newest first.\<close>

definition bigSnapshot :: import_result where
  "bigSnapshot = \<lparr>r_project = sampleProject, r_gdd = [], r_sectionPrompts = None,
     r_diagramHistory = Some (map sampleDiagram (rev [0..<21])), r_chatHistory = None\<rparr>"

section \<open>Helper lemmas\<close>

text \<open>The definitions that the simplifier unfolds to run the model on a concrete input.\<close>

lemmas str_eval = js_def NL_def DQ_def trim_def trimEnd_def trimStart_def isWhiteSpace_def
  isLineTerminator_def startsWith_def endsWith_def

lemmas norm_eval = normalizeSectionTitle_def toLowerCase_def lowerUnit_def keepChar_def
  isEmoji_def isHighSurrogate_def isLowSurrogate_def codePoint_def

lemmas import_eval = parseMarkdownImport_def importedName_def importedMeta_def metaStep_def
  matchLabel_def matchPlatforms_def hasLabel_def captureRest_def asciiLower_def isH1_def isH2_def
  headingOfLine_def stripHeadingMarks_def stripGddSuffix_def isDash_def isGddSectionHeading_def
  getProperty_def inheritedProperty_def fallbackSections_def fallbackStep_def
  fallbackSectionId_def slice_def storeLines_def Let_def

lemmas prompt_eval = sectionPrompt_def isUpdate_def existingContentOf_def customPromptOf_def
  content_of_def updatePrompt_def freshPrompt_def promptContext_def otherSections_def
  find_section_def GDD_SECTIONS_def Let_def

lemmas input_eval = emptyState_def sampleProject_def artSection_def tabState_def blankState_def
  overviewState_def

lemmas detect_eval = detectRelevantSections_def keywordScore_def sectionKeywords_def
  broadKeywords_def filled_def content_of_def toLowerCase_def lowerUnit_def GDD_SECTIONS_def
  Let_def

lemma knownSectionTitles_eq:
  "knownSectionTitles =
    [(js ''game overview'', js ''overview''), (js ''gameplay mechanics'', js ''gameplay''),
     (js ''story & narrative'', js ''story''), (js ''characters'', js ''characters''),
     (js ''world & level design'', js ''world''), (js ''art style'', js ''art''),
     (js ''sound design'', js ''audio''), (js ''technical requirements'', js ''technical''),
     (js ''monetization'', js ''monetization''), (js ''timeline'', js ''timeline'')]"
  by (simp add: knownSectionTitles_def GDD_SECTIONS_def str_eval norm_eval)

subsection \<open>Objects and the registry\<close>


lemma obj_set_new: "k \<notin> fst ` set g \<Longrightarrow> obj_set k v g = g @ [(k, v)]"
  by (induction g) auto


lemma find_section_registry: "find_section k = Some s \<Longrightarrow> k \<in> set registry_ids"
  unfolding find_section_def registry_ids_def
  by (auto simp: find_Some_iff)

lemma find_section_None_iff: "find_section k = None \<longleftrightarrow> k \<notin> set registry_ids"
  unfolding find_section_def registry_ids_def find_None_iff by auto

lemma registry_distinct: "distinct (map sid GDD_SECTIONS)"
  by (simp add: GDD_SECTIONS_def js_def)

subsection \<open>Substrings\<close>

lemma startsWith_iff: "startsWith s t \<longleftrightarrow> (\<exists>r. s = t @ r)"
proof
  assume "startsWith s t"
  then have "take (length t) s = t" by (simp add: startsWith_def)
  then have "s = t @ drop (length t) s" using append_take_drop_id [of "length t" s] by simp
  then show "\<exists>r. s = t @ r" ..
next
  assume "\<exists>r. s = t @ r"
  then obtain r where "s = t @ r" ..
  then show "startsWith s t" by (simp add: startsWith_def)
qed

lemma js_includes_iff: "js_includes s t \<longleftrightarrow> (\<exists>a b. s = a @ t @ b)"
proof (induction s)
  case Nil
  show ?case by auto
next
  case (Cons x xs)
  show ?case
  proof
    assume "js_includes (x # xs) t"
    then consider "startsWith (x # xs) t" | "js_includes xs t" by auto
    then show "\<exists>a b. x # xs = a @ t @ b"
    proof cases
      case 1
      then obtain r where "x # xs = t @ r" unfolding startsWith_iff ..
      then have "x # xs = [] @ t @ r" by simp
      then show ?thesis by blast
    next
      case 2
      then obtain a b where "xs = a @ t @ b" using Cons.IH by blast
      then have "x # xs = (x # a) @ t @ b" by simp
      then show ?thesis by blast
    qed
  next
    assume "\<exists>a b. x # xs = a @ t @ b"
    then obtain a b where ab: "x # xs = a @ t @ b" by blast
    show "js_includes (x # xs) t"
    proof (cases a)
      case Nil
      then have "startsWith (x # xs) t" unfolding startsWith_iff using ab by auto
      then show ?thesis by simp
    next
      case (Cons y ys)
      then have "xs = ys @ t @ b" using ab by simp
      then have "js_includes xs t" using Cons.IH by blast
      then show ?thesis by simp
    qed
  qed
qed

lemma js_includes_set: "js_includes s t \<Longrightarrow> set t \<subseteq> set s"
  unfolding js_includes_iff by auto

lemma js_includes_refl: "js_includes t t"
  unfolding js_includes_iff by (rule exI [of _ "[]"], rule exI [of _ "[]"]) simp

lemma js_includes_prepend: "js_includes s t \<Longrightarrow> js_includes (c @ s) t"
proof -
  assume "js_includes s t"
  then obtain a b where "s = a @ t @ b" unfolding js_includes_iff by blast
  then have "c @ s = (c @ a) @ t @ b" by simp
  then show ?thesis unfolding js_includes_iff by blast
qed

lemma js_includes_append: "js_includes s t \<Longrightarrow> js_includes (s @ c) t"
proof -
  assume "js_includes s t"
  then obtain a b where "s = a @ t @ b" unfolding js_includes_iff by blast
  then have "s @ c = a @ t @ (b @ c)" by simp
  then show ?thesis unfolding js_includes_iff by blast
qed

lemma js_includes_join: "x \<in> set xs \<Longrightarrow> js_includes (join sep xs) x"
proof (induction sep xs rule: join.induct)
  case (1 sep)
  then show ?case by simp
next
  case (2 sep y)
  then show ?case by (simp add: js_includes_refl)
next
  case (3 sep y z zs)
  show ?case
  proof (cases "x = y")
    case True
    then show ?thesis using js_includes_append [OF js_includes_refl, of y] by simp
  next
    case False
    then have "js_includes (join sep (z # zs)) x" using 3 by simp
    then have "js_includes (y @ sep @ join sep (z # zs)) x"
      using js_includes_prepend [of "join sep (z # zs)" x "y @ sep"] by simp
    then show ?thesis by simp
  qed
qed

subsection \<open>Splitting, joining and trimming\<close>

lemma split_js_nonempty: "split_js c xs \<noteq> []"
  by (induction xs) (auto split: list.splits)

lemma split_js_no_sep: "c \<notin> set a \<Longrightarrow> split_js c a = [a]"
  by (induction a) auto

lemma split_js_append: "split_js c (a @ c # b) = split_js c a @ split_js c b"
proof (induction a)
  case Nil
  show ?case by simp
next
  case (Cons x a)
  obtain l ls where s: "split_js c a = l # ls"
    using split_js_nonempty [of c a] by (cases "split_js c a") auto
  show ?case using Cons.IH by (simp add: s)
qed

lemma split_js_line: "c \<notin> set a \<Longrightarrow> split_js c (a @ c # b) = a # split_js c b"
  by (simp add: split_js_append split_js_no_sep)

lemma join_Cons: "ys \<noteq> [] \<Longrightarrow> join sep (x # ys) = x @ sep @ join sep ys"
  by (cases ys) simp_all

lemma join_snoc: "xs \<noteq> [] \<Longrightarrow> join sep (xs @ [y]) = join sep xs @ sep @ y"
proof (induction sep xs rule: join.induct)
  case (1 sep)
  then show ?case by simp
next
  case (2 sep x)
  show ?case by simp
next
  case (3 sep x z zs)
  then show ?case by simp
qed

lemma join_split_js: "join [c] (split_js c s) = s"
proof (induction s)
  case Nil
  show ?case by simp
next
  case (Cons x s)
  obtain l ls where sp: "split_js c s = l # ls"
    using split_js_nonempty [of c s] by (cases "split_js c s") auto
  show ?case
  proof (cases "x = c")
    case True
    then show ?thesis using Cons.IH by (simp add: sp)
  next
    case False
    show ?thesis
    proof (cases ls)
      case Nil
      then show ?thesis using Cons.IH False by (simp add: sp)
    next
      case (Cons m ms)
      then show ?thesis using Cons.IH False by (simp add: sp)
    qed
  qed
qed

lemma trimStart_pad: "\<forall>c \<in> set w. isWhiteSpace c \<Longrightarrow> trimStart (w @ s) = trimStart s"
  by (simp add: trimStart_def dropWhile_append2)

lemma trimEnd_pad: "\<forall>c \<in> set w. isWhiteSpace c \<Longrightarrow> trimEnd (s @ w) = trimEnd s"
  using dropWhile_append2 [of "rev w" isWhiteSpace "rev s"] by (simp add: trimEnd_def)

lemma trim_fixed_parts:
  assumes "trim c = c"
  shows "trimStart c = c" and "trimEnd c = c"
proof -
  have len: "length (trimEnd (trimStart c)) \<le> length (trimStart c)"
    by (simp add: trimEnd_def length_dropWhile_le [of isWhiteSpace "rev (trimStart c)", simplified])
  have len2: "length (trimStart c) \<le> length c"
    by (simp add: trimStart_def length_dropWhile_le)
  from assms have "length (trimEnd (trimStart c)) = length c" by (simp add: trim_def)
  with len len2 have "length (trimStart c) = length c" by simp
  then show s: "trimStart c = c"
    unfolding trimStart_def
    by (metis dropWhile_eq_drop takeWhile_dropWhile_id append_self_conv2
          length_0_conv length_append add_cancel_right_left)
  with assms show "trimEnd c = c" by (simp add: trim_def)
qed

lemma trim_pad:
  assumes w1: "\<forall>c \<in> set w1. isWhiteSpace c" and w2: "\<forall>c \<in> set w2. isWhiteSpace c"
    and ne: "b \<noteq> []" and fx: "trim b = b"
  shows "trim (w1 @ b @ w2) = b"
proof -
  have ts: "trimStart b = b" and te: "trimEnd b = b" using trim_fixed_parts [OF fx] by auto
  have "\<not> isWhiteSpace (hd b)"
    using ts ne unfolding trimStart_def by (metis hd_dropWhile)
  then have "dropWhile isWhiteSpace (b @ w2) = b @ w2"
    using ne by (cases b) auto
  then have "trimStart (w1 @ b @ w2) = b @ w2"
    using trimStart_pad [OF w1, of "b @ w2"] by (simp add: trimStart_def)
  then have "trim (w1 @ b @ w2) = trimEnd (b @ w2)" by (simp add: trim_def)
  also have "\<dots> = trimEnd b" using trimEnd_pad [OF w2] by simp
  finally show ?thesis using te by simp
qed

lemma trim_subset: "set (trim s) \<subseteq> set s"
proof -
  have "set (trimEnd t) \<subseteq> set t" for t
    using set_dropWhileD [of _ isWhiteSpace "rev t"] by (auto simp: trimEnd_def)
  moreover have "set (trimStart s) \<subseteq> set s"
    using set_dropWhileD [of _ isWhiteSpace s] by (auto simp: trimStart_def)
  ultimately show ?thesis unfolding trim_def by blast
qed

lemma trim_keeps_first: "\<not> isWhiteSpace x \<Longrightarrow> \<exists>ys. trim (x # xs) = x # ys"
proof -
  assume x: "\<not> isWhiteSpace x"
  have "\<exists>zs. dropWhile isWhiteSpace (rev xs @ [x]) = zs @ [x]"
    using x by (simp add: dropWhile_append)
  then obtain zs where "dropWhile isWhiteSpace (rev xs @ [x]) = zs @ [x]" ..
  then have "trim (x # xs) = x # rev zs"
    using x by (simp add: trim_def trimStart_def trimEnd_def)
  then show ?thesis ..
qed

lemma trim_id:
  "s \<noteq> [] \<Longrightarrow> \<not> isWhiteSpace (hd s) \<Longrightarrow> \<not> isWhiteSpace (last s) \<Longrightarrow> trim s = s"
proof -
  assume ne: "s \<noteq> []" and h: "\<not> isWhiteSpace (hd s)" and l: "\<not> isWhiteSpace (last s)"
  have a: "trimStart s = s" using ne h by (cases s) (simp_all add: trimStart_def)
  have "dropWhile isWhiteSpace (rev s) = rev s"
    using ne l by (cases "rev s") (simp_all add: last_rev [symmetric] hd_rev)
  then have "trimEnd s = s" by (simp add: trimEnd_def)
  then show ?thesis using a by (simp add: trim_def)
qed

subsection \<open>Which headings the import takes for a section\<close>

text \<open>
  \<open>isGddSectionHeading\<close> on the registry's table is a lookup of the normalised heading
  among the normalised titles, followed by the inherited properties. A normalised
  heading consists of lower-case ASCII letters, digits, spaces and ampersands, and
  \<open>constructor\<close> is the only inherited property name of that form.
\<close>

lemma known_ids_nonempty: "(t, i) \<in> set knownSectionTitles \<Longrightarrow> i \<noteq> []"
  unfolding knownSectionTitles_eq by (auto simp: js_def)

lemma inherited_truthy: "inheritedProperty k = Some v \<Longrightarrow> truthyVal v"
  by (auto simp: inheritedProperty_def split: if_splits)

lemma find_key_None: "map_of kvs k = None \<Longrightarrow> find (\<lambda>(t, i). k = t) kvs = None"
  by (induction kvs) (auto split: if_splits)

lemma isGddSectionHeading_registry:
  "isGddSectionHeading heading knownSectionTitles =
    (case map_of knownSectionTitles (normalizeSectionTitle heading) of
       Some i \<Rightarrow> Some (Str i)
     | None \<Rightarrow> inheritedProperty (normalizeSectionTitle heading))"
proof (cases "map_of knownSectionTitles (normalizeSectionTitle heading)")
  case (Some i)
  then have "i \<noteq> []" using known_ids_nonempty map_of_SomeD by fast
  then show ?thesis using Some
    by (simp add: isGddSectionHeading_def getProperty_def Let_def)
next
  case None
  show ?thesis
  proof (cases "inheritedProperty (normalizeSectionTitle heading)")
    case inh: None
    then show ?thesis using None find_key_None [OF None]
      by (simp add: isGddSectionHeading_def getProperty_def Let_def)
  next
    case (Some v)
    then show ?thesis using None inherited_truthy [OF Some]
      by (simp add: isGddSectionHeading_def getProperty_def Let_def)
  qed
qed

lemma replaceSpaces_keep:
  "\<forall>c \<in> set s. keepChar c \<Longrightarrow> \<forall>c \<in> set (replaceSpaces (js '' '') s). keepChar c"
proof (induction "js '' ''" s rule: replaceSpaces.induct)
  case 1
  show ?case by simp
next
  case (2 c cs)
  have sp: "keepChar 32" by (simp add: keepChar_def isWhiteSpace_def)
  have dw: "\<forall>c \<in> set (dropWhile isWhiteSpace cs). keepChar c"
    using 2(3) set_dropWhileD by fastforce
  show ?case
  proof (cases "isWhiteSpace c")
    case True
    then show ?thesis using 2(1) dw sp by (simp add: js_def)
  next
    case False
    then show ?thesis using 2(2) 2(3) by simp
  qed
qed

lemma normalized_keep: "\<forall>c \<in> set (normalizeSectionTitle t). keepChar c"
proof -
  have "\<forall>c \<in> set (filter keepChar (stripEmoji (toLowerCase t))). keepChar c" by simp
  then have "\<forall>c \<in> set (replaceSpaces (js '' '') (filter keepChar (stripEmoji (toLowerCase t)))). keepChar c"
    by (rule replaceSpaces_keep)
  then show ?thesis
    unfolding normalizeSectionTitle_def using trim_subset by blast
qed

lemma inherited_normalized:
  "inheritedProperty (normalizeSectionTitle h) \<noteq> None \<longleftrightarrow>
   normalizeSectionTitle h = js ''constructor''"
proof -
  let ?n = "normalizeSectionTitle h"
  have k: "\<forall>c \<in> set ?n. keepChar c" by (rule normalized_keep)
  have caps: "\<not> keepChar 79" "\<not> keepChar 80" "\<not> keepChar 73" "\<not> keepChar 76" "\<not> keepChar 83"
    "\<not> keepChar 95"
    by (simp_all add: keepChar_def isWhiteSpace_def)
  have "?n \<noteq> js ''hasOwnProperty''" "?n \<noteq> js ''isPrototypeOf''"
    "?n \<noteq> js ''propertyIsEnumerable''" "?n \<noteq> js ''toLocaleString''" "?n \<noteq> js ''toString''"
    "?n \<noteq> js ''valueOf''" "?n \<noteq> js ''__defineGetter__''" "?n \<noteq> js ''__defineSetter__''"
    "?n \<noteq> js ''__lookupGetter__''" "?n \<noteq> js ''__lookupSetter__''" "?n \<noteq> js ''__proto__''"
    using k caps by (auto simp: js_def)
  then show ?thesis
    by (simp add: inheritedProperty_def)
qed

lemma heading_boundary_iff:
  "isGddSectionHeading h knownSectionTitles \<noteq> None \<longleftrightarrow>
   normalizeSectionTitle h \<in> set (map (\<lambda>s. normalizeSectionTitle (title s)) GDD_SECTIONS) \<or>
   normalizeSectionTitle h = js ''constructor''"
proof -
  have keys: "fst ` set knownSectionTitles =
              set (map (\<lambda>s. normalizeSectionTitle (title s)) GDD_SECTIONS)"
    unfolding knownSectionTitles_eq
    by (simp add: GDD_SECTIONS_def str_eval norm_eval)
  have m: "map_of knownSectionTitles k \<noteq> None \<longleftrightarrow> k \<in> fst ` set knownSectionTitles" for k
    by (simp add: map_of_eq_None_iff)
  show ?thesis
    unfolding isGddSectionHeading_registry
    using inherited_normalized [of h] m [of "normalizeSectionTitle h"] keys
    by (auto split: option.splits)
qed

subsection \<open>The relevance detector on every message\<close>

text \<open>
  A section's score is the number of its keywords, as written in the table, that the
  lower-cased message includes. A message that includes a broad keyword this way gets
  the filled sections; any other message gets the sections of positive score, in
  descending order of score, sections of equal score in table order.
\<close>

lemma keywordScore_count:
  "keywordScore lower kws = length (filter (js_includes lower) kws)"
proof -
  have "fold (\<lambda>kw score. if js_includes lower kw then score + 1 else score) kws n =
        n + length (filter (js_includes lower) kws)" for n
    by (induction kws arbitrary: n) simp_all
  then show ?thesis by (simp add: keywordScore_def)
qed

lemma fold_scores:
  assumes "distinct (map fst tbl)" and "\<forall>k \<in> fst ` set tbl. k \<notin> fst ` set acc"
  shows "fold (\<lambda>(sectionId, keywords) scores.
                let score = f keywords
                in if score > 0 then obj_set sectionId score scores else scores) tbl acc =
         acc @ filter (\<lambda>e. 0 < snd e) (map (\<lambda>(k, kws). (k, f kws)) tbl)"
  using assms
proof (induction tbl arbitrary: acc)
  case Nil
  show ?case by simp
next
  case (Cons e tbl)
  obtain k kws where e: "e = (k, kws)" by (cases e)
  have new: "k \<notin> fst ` set acc" using Cons.prems(2) e by simp
  have d: "distinct (map fst tbl)" and nk: "k \<notin> fst ` set tbl"
    using Cons.prems(1) e by auto
  show ?case
  proof (cases "0 < f kws")
    case True
    have keys: "\<forall>k' \<in> fst ` set tbl. k' \<notin> fst ` set (acc @ [(k, f kws)])"
      using Cons.prems(2) nk by auto
    show ?thesis
      using Cons.IH [OF d keys] True obj_set_new [OF new, of "f kws"]
      by (simp add: e Let_def)
  next
    case False
    have keys: "\<forall>k' \<in> fst ` set tbl. k' \<notin> fst ` set acc"
      using Cons.prems(2) by auto
    show ?thesis
      using Cons.IH [OF d keys] False by (simp add: e Let_def)
  qed
qed

lemma sectionKeywords_rows: "map fst sectionKeywords = registry_ids"
  by (simp add: sectionKeywords_def registry_ids_def GDD_SECTIONS_def)

lemma detect_broad:
  "list_ex (\<lambda>kw. js_includes (toLowerCase message) kw) broadKeywords \<Longrightarrow>
   detectRelevantSections st message =
     map sid (filter (\<lambda>s. filled (gddData st) (sid s)) GDD_SECTIONS)"
  by (simp add: detectRelevantSections_def Let_def)

lemma detect_scored:
  assumes "\<not> list_ex (\<lambda>kw. js_includes (toLowerCase message) kw) broadKeywords"
  shows "detectRelevantSections st message =
     map fst (sort_key (\<lambda>e. - int (snd e))
       (filter (\<lambda>e. 0 < snd e)
         (map (\<lambda>(k, kws). (k, length (filter (js_includes (toLowerCase message)) kws)))
            sectionKeywords)))"
proof -
  have d: "distinct (map fst sectionKeywords)"
    unfolding sectionKeywords_rows registry_ids_def by (rule registry_distinct)
  have "fold (\<lambda>(sectionId, keywords) scores.
                let score = keywordScore (toLowerCase message) keywords
                in if score > 0 then obj_set sectionId score scores else scores)
          sectionKeywords [] =
        [] @ filter (\<lambda>e. 0 < snd e)
          (map (\<lambda>(k, kws). (k, keywordScore (toLowerCase message) kws)) sectionKeywords)"
    by (rule fold_scores [OF d]) simp
  then show ?thesis using assms
    by (simp add: detectRelevantSections_def Let_def keywordScore_count)
qed

lemma detect_ranked:
  assumes "\<not> list_ex (\<lambda>kw. js_includes (toLowerCase message) kw) broadKeywords"
    and "scored = filter (\<lambda>e. 0 < snd e)
         (map (\<lambda>(k, kws). (k, length (filter (js_includes (toLowerCase message)) kws)))
            sectionKeywords)"
  shows "\<exists>ranked. detectRelevantSections st message = map fst ranked \<and>
           set ranked = set scored \<and>
           sorted (map (\<lambda>e. - int (snd e)) ranked) \<and>
           (\<forall>n. filter (\<lambda>e. - int (snd e) = n) ranked = filter (\<lambda>e. - int (snd e) = n) scored)"
proof -
  let ?ranked = "sort_key (\<lambda>e. - int (snd e)) scored"
  have "detectRelevantSections st message = map fst ?ranked"
    unfolding assms(2) by (rule detect_scored [OF assms(1)])
  moreover have "set ?ranked = set scored" by simp
  moreover have "sorted (map (\<lambda>e. - int (snd e)) ?ranked)" by (rule sorted_sort_key)
  moreover have "\<forall>n. filter (\<lambda>e. - int (snd e) = n) ?ranked = filter (\<lambda>e. - int (snd e) = n) scored"
    by (simp add: sort_key_stable)
  ultimately show ?thesis by blast
qed

lemma detect_no_match:
  assumes "\<not> list_ex (\<lambda>kw. js_includes (toLowerCase message) kw) broadKeywords"
    and "\<forall>(k, kws) \<in> set sectionKeywords. \<forall>kw \<in> set kws. \<not> js_includes (toLowerCase message) kw"
  shows "detectRelevantSections st message = []"
proof -
  have "filter (js_includes (toLowerCase message)) kws = []" if "(k, kws) \<in> set sectionKeywords" for k kws
    using assms(2) that by (auto simp: filter_empty_conv)
  then have "filter (\<lambda>e. 0 < snd e)
         (map (\<lambda>(k, kws). (k, length (filter (js_includes (toLowerCase message)) kws)))
            sectionKeywords) = []"
    by (auto simp: filter_empty_conv)
  then show ?thesis using detect_scored [OF assms(1), of st] by simp
qed

subsection \<open>The prompt of a fresh generation\<close>

lemma otherSections_obj_set:
  "otherSections (obj_set k d g) k = otherSections g k"
proof -
  let ?f = "\<lambda>(key, val).
              (case find_section key of
                 None \<Rightarrow> []
               | Some sec \<Rightarrow>
                   (case content val of
                      None \<Rightarrow> []
                    | Some c \<Rightarrow>
                        if c \<noteq> [] \<and> key \<noteq> k
                        then [NL] @ js ''### '' @ title sec @ [NL] @ take 500 c
                        else []))"
  have at_k: "\<And>v. ?f (k, v) = []"
    by (simp split: option.splits)
  have "filter (\<lambda>x. x \<noteq> []) (map ?f (obj_set k d g)) = filter (\<lambda>x. x \<noteq> []) (map ?f g)"
  proof (induction g)
    case Nil
    show ?case using at_k [of d] by simp
  next
    case (Cons e g)
    obtain k' v' where e: "e = (k', v')" by (cases e)
    show ?case
    proof (cases "k = k'")
      case True
      then show ?thesis using at_k [of d] at_k [of v'] by (simp add: e)
    next
      case False
      then show ?thesis using Cons.IH by (simp add: e)
    qed
  qed
  then show ?thesis by (simp add: otherSections_def)
qed

text \<open>The two templates never give the same text: they part after the project context.\<close>

lemma templates_differ:
  "updatePrompt ctx todayStr section e i \<noteq> freshPrompt ctx todayStr section others i'"
  by (simp add: updatePrompt_def freshPrompt_def js_def NL_def)

subsection \<open>The metadata loop of the markdown import\<close>

lemma metaStep_genre:
  "\<not> hasLabel (js ''**genre:**'') (trim raw) \<Longrightarrow>
   fst (snd (metaStep parseDate raw (c, g, p))) = g"
  by (simp add: metaStep_def matchLabel_def Let_def)

lemma metaStep_platforms:
  "\<not> hasLabel (js ''**platforms:**'') (trim raw) \<Longrightarrow>
   \<not> hasLabel (js ''**platform:**'') (trim raw) \<Longrightarrow>
   snd (snd (metaStep parseDate raw (c, g, p))) = p"
  by (simp add: metaStep_def matchPlatforms_def matchLabel_def Let_def)

lemma fold_metaStep_genre:
  "\<forall>l \<in> set ls. \<not> hasLabel (js ''**genre:**'') (trim l) \<Longrightarrow>
   fst (snd (fold (metaStep parseDate) ls (c, g, p))) = g"
proof (induction ls arbitrary: c g p)
  case Nil
  show ?case by simp
next
  case (Cons l ls)
  obtain c' g' p' where s: "metaStep parseDate l (c, g, p) = (c', g', p')"
    by (cases "metaStep parseDate l (c, g, p)") auto
  have "g' = g" using metaStep_genre [of l parseDate c g p] Cons.prems s by simp
  then show ?case using Cons.IH [of c' g' p'] Cons.prems s by simp
qed

lemma fold_metaStep_platforms:
  "\<forall>l \<in> set ls. \<not> hasLabel (js ''**platforms:**'') (trim l) \<and>
                \<not> hasLabel (js ''**platform:**'') (trim l) \<Longrightarrow>
   snd (snd (fold (metaStep parseDate) ls (c, g, p))) = p"
proof (induction ls arbitrary: c g p)
  case Nil
  show ?case by simp
next
  case (Cons l ls)
  obtain c' g' p' where s: "metaStep parseDate l (c, g, p) = (c', g', p')"
    by (cases "metaStep parseDate l (c, g, p)") auto
  have "p' = p" using metaStep_platforms [of l parseDate c g p] Cons.prems s by simp
  then show ?case using Cons.IH [of c' g' p'] Cons.prems s by simp
qed

subsection \<open>The two passes of the markdown import on a file made of segments\<close>

lemma scan_none:
  "\<forall>l \<in> set ls. headingOfLine l = None \<Longrightarrow> scanBoundaries i ls = []"
  by (induction ls arbitrary: i) simp_all

lemma scan_skip:
  "\<forall>l \<in> set pre. headingOfLine l = None \<Longrightarrow>
   scanBoundaries i (pre @ rest) = scanBoundaries (i + length pre) rest"
  by (induction pre arbitrary: i) simp_all

lemma slice_middle: "slice (length P) (length P + length b) (P @ b @ r) = b"
  by (simp add: slice_def)

lemma collect_segments:
  assumes "\<And>h v body. (h, v, body) \<in> set segs \<Longrightarrow>
             headingOfLine h = Some v \<and> (\<forall>l \<in> set body. headingOfLine l = None)"
    and "\<forall>l \<in> set rest. headingOfLine l = None"
  shows "collectSections now (P @ concat (map (\<lambda>(h, v, body). h # body) segs) @ rest)
           (scanBoundaries (length P) (concat (map (\<lambda>(h, v, body). h # body) segs) @ rest)) g =
         storeSegments now segs rest g"
  using assms
proof (induction segs arbitrary: P g)
  case Nil
  then show ?case by (simp add: scan_none)
next
  case (Cons seg segs)
  obtain h v body where seg: "seg = (h, v, body)" by (cases seg)
  let ?R = "concat (map (\<lambda>(h, v, body). h # body) segs) @ rest"
  let ?lines = "P @ (h # body) @ ?R"
  let ?P' = "P @ h # body"
  have hv: "headingOfLine h = Some v" and bd: "\<forall>l \<in> set body. headingOfLine l = None"
    using Cons.prems(1) [of h v body] seg by auto
  have sc: "scanBoundaries (length P) ((h # body) @ ?R) =
            (length P, v) # scanBoundaries (length ?P') ?R"
    using hv scan_skip [OF bd, of "Suc (length P)" ?R] by simp
  have p1: "headingOfLine h' = Some v' \<and> (\<forall>l \<in> set body'. headingOfLine l = None)"
    if "(h', v', body') \<in> set segs" for h' v' body'
    using Cons.prems(1) [of h' v' body'] that by simp
  have ih: "collectSections now (?P' @ ?R) (scanBoundaries (length ?P') ?R) g' =
            storeSegments now segs rest g'" for g'
    using Cons.IH [of ?P' g', OF p1 Cons.prems(2)] by simp
  have lines: "?lines = ?P' @ ?R" by simp
  show ?case
  proof (cases segs)
    case Nil
    have e: "scanBoundaries (Suc (length P + length body)) rest = []"
      by (rule scan_none [OF Cons.prems(2)])
    have sl: "slice (length P + 1) (length (P @ (h # body) @ rest)) (P @ (h # body) @ rest) = body @ rest"
      by (simp add: slice_def)
    have "scanBoundaries (length P) ((h # body) @ rest) = [(length P, v)]"
      using sc e by (simp add: Nil)
    then show ?thesis
      using sl by (simp add: seg Nil)
  next
    case (Cons seg' segs')
    obtain h' v' body' where seg': "seg' = (h', v', body')" by (cases seg')
    have hv': "headingOfLine h' = Some v'"
      using p1 [of h' v' body'] seg' Cons by simp
    obtain R' where R': "?R = h' # R'" by (simp add: Cons seg')
    have e: "scanBoundaries (length ?P') ?R =
             (length ?P', v') # scanBoundaries (Suc (length ?P')) R'"
      using hv' by (simp add: R')
    have sl: "slice (length P + 1) (length ?P') (?P' @ ?R) = body"
      by (simp add: slice_def)
    have "collectSections now ?lines (scanBoundaries (length P) ((h # body) @ ?R)) g =
          collectSections now (?P' @ ?R) (scanBoundaries (length ?P') ?R)
            (storeLines now v body g)"
      unfolding sc lines e using sl by (simp add: Let_def)
    also have "\<dots> = storeSegments now segs rest (storeLines now v body g)"
      by (rule ih)
    finally show ?thesis by (simp add: seg Cons)
  qed
qed

subsection \<open>The lines of a markdown export\<close>

lemma fold_append_concat: "fold (\<lambda>s md. md @ f s) xs h = h @ concat (map f xs)"
  by (induction xs arbitrary: h) simp_all

lemma generateMarkdownExport_concat:
  "generateMarkdownExport fmt p g = exportHeader fmt p @ concat (map (exportSection g) GDD_SECTIONS)"
  by (simp add: generateMarkdownExport_def fold_append_concat)

lemma heading_none_first:
  "\<not> isWhiteSpace x \<Longrightarrow> x \<noteq> 35 \<Longrightarrow> headingOfLine (x # xs) = None"
proof -
  assume x: "\<not> isWhiteSpace x" and h: "x \<noteq> 35"
  obtain ys where "trim (x # xs) = x # ys" using trim_keeps_first [OF x] ..
  then show ?thesis using h
    by (simp add: headingOfLine_def isH2_def startsWith_def js_def)
qed

lemma heading_none_title_line:
  "headingOfLine (js ''# '' @ name @ js '' - Game Design Document'') = None"
proof -
  let ?s = "js ''# '' @ name @ js '' - Game Design Document''"
  have "trim ?s = ?s"
    by (rule trim_id) (simp_all add: js_def isWhiteSpace_def)
  then show ?thesis
    by (simp add: headingOfLine_def isH2_def startsWith_def js_def)
qed

lemma heading_none_fixed:
  "headingOfLine [] = None" "headingOfLine (js ''---'') = None"
  by (simp_all add: headingOfLine_def isH2_def str_eval)

lemma header_lines:
  assumes "headerOneLine fmt p"
  shows "\<exists>HL. (\<forall>l \<in> set HL. headingOfLine l = None) \<and>
              (\<forall>rest. split_js NL (exportHeader fmt p @ rest) = HL @ split_js NL rest)"
proof -
  let ?l1 = "js ''# '' @ p_name p @ js '' - Game Design Document''"
  let ?l3 = "js ''**Created:** '' @ formatDate fmt (p_createdAt p)"
  let ?l4 = "js ''**Last Updated:** '' @ formatDate fmt (p_updatedAt p)"
  let ?l5 = "js ''**Genre:** '' @ p_genre p"
  let ?l6 = "js ''**Platforms:** '' @ join (js '', '') (p_platforms p)"
  let ?HL = "[?l1, [], ?l3, ?l4, ?l5, ?l6, [], js ''---'', []]"
  have n: "NL \<notin> set ?l1" "NL \<notin> set ?l3" "NL \<notin> set ?l4" "NL \<notin> set ?l5" "NL \<notin> set ?l6"
    "NL \<notin> set (js ''---'')"
    using assms by (simp_all add: headerOneLine_def oneLine_def js_def NL_def)
  have star: "headingOfLine (js ''**Created:** '' @ a) = None"
    "headingOfLine (js ''**Last Updated:** '' @ a) = None"
    "headingOfLine (js ''**Genre:** '' @ a) = None"
    "headingOfLine (js ''**Platforms:** '' @ a) = None" for a
    by (simp_all add: js_def heading_none_first isWhiteSpace_def)
  have none: "\<forall>l \<in> set ?HL. headingOfLine l = None"
    using star heading_none_title_line heading_none_fixed by simp
  have "split_js NL (exportHeader fmt p @ rest) = ?HL @ split_js NL rest" for rest
  proof -
    let ?t7 = "js ''---'' @ NL # NL # rest"
    let ?t6 = "?l6 @ NL # NL # ?t7"
    let ?t5 = "?l5 @ NL # ?t6"
    let ?t4 = "?l4 @ NL # ?t5"
    let ?t3 = "?l3 @ NL # ?t4"
    let ?t1 = "?l1 @ NL # NL # ?t3"
    have e: "exportHeader fmt p @ rest = ?t1"
      by (simp add: exportHeader_def)
    have s7: "split_js NL ?t7 = js ''---'' # [] # split_js NL rest"
      using split_js_line [OF n(6), of "NL # rest"] by simp
    have s6: "split_js NL ?t6 = ?l6 # [] # split_js NL ?t7"
      using split_js_line [OF n(5), of "NL # ?t7"] by simp
    have s5: "split_js NL ?t5 = ?l5 # split_js NL ?t6"
      by (rule split_js_line [OF n(4)])
    have s4: "split_js NL ?t4 = ?l4 # split_js NL ?t5"
      by (rule split_js_line [OF n(3)])
    have s3: "split_js NL ?t3 = ?l3 # split_js NL ?t4"
      by (rule split_js_line [OF n(2)])
    have s1: "split_js NL ?t1 = ?l1 # [] # split_js NL ?t3"
      using split_js_line [OF n(1), of "NL # ?t3"] by simp
    show ?thesis
      unfolding e s1 s3 s4 s5 s6 s7 by simp
  qed
  then show ?thesis using none by blast
qed

lemma section_lines:
  assumes "\<forall>sec \<in> set secs. NL \<notin> set (title sec)"
  shows "split_js NL (concat (map (exportSection g) secs)) =
         concat (map (\<lambda>sec. (js ''## '' @ title sec) #
                       ([] # split_js NL (exportBody g sec) @ [[]])) secs) @ [[]]"
  using assms
proof (induction secs)
  case Nil
  show ?case by simp
next
  case (Cons sec secs)
  let ?rest = "concat (map (exportSection g) secs)"
  have n: "NL \<notin> set (js ''## '' @ title sec)"
    using Cons.prems by (simp add: js_def NL_def)
  have e: "exportSection g sec @ ?rest =
        (js ''## '' @ title sec) @ NL # NL # exportBody g sec @ NL # NL # ?rest"
    by (simp add: exportSection_def)
  have s1: "split_js NL ((js ''## '' @ title sec) @ NL # NL # exportBody g sec @ NL # NL # ?rest) =
        (js ''## '' @ title sec) # [] # split_js NL (exportBody g sec @ NL # NL # ?rest)"
    using split_js_line [OF n, of "NL # exportBody g sec @ NL # NL # ?rest"] by simp
  have s2: "split_js NL (exportBody g sec @ NL # NL # ?rest) =
        split_js NL (exportBody g sec) @ [] # split_js NL ?rest"
    using split_js_append [of NL "exportBody g sec" "NL # ?rest"] by simp
  have "split_js NL (exportSection g sec @ ?rest) =
        (js ''## '' @ title sec) # [] # split_js NL (exportBody g sec) @ [] # split_js NL ?rest"
    unfolding e s1 s2 by simp
  then show ?case using Cons by simp
qed

subsection \<open>Importing an export\<close>

lemma registry_headings:
  "list_all (\<lambda>sec. headingOfLine (js ''## '' @ title sec) = Some (Str (sid sec)) \<and>
                   NL \<notin> set (title sec)) GDD_SECTIONS"
  by (simp add: GDD_SECTIONS_def import_eval knownSectionTitles_eq str_eval norm_eval)

lemma placeholder_roundTrip: "roundTripContent placeholder"
  by (simp add: roundTripContent_def placeholder_def headingOfLine_def isH2_def str_eval)

lemma storeLines_body:
  assumes "b \<noteq> []" and "trim b = b" and "extra = [] \<or> extra = [[]]"
  shows "storeLines now v ([] # split_js NL b @ [[]] @ extra) g =
         obj_set (propertyKey v) \<lparr>content = Some b, lastUpdated = Some now\<rparr> g"
proof -
  have ne: "split_js NL b \<noteq> []" by (rule split_js_nonempty)
  have j1: "join [NL] ([] # split_js NL b @ [[]]) = [NL] @ b @ [NL]"
    using ne by (simp add: join_Cons join_snoc join_split_js)
  have j2: "join [NL] ([] # split_js NL b @ [[]] @ [[]]) = [NL] @ b @ [NL, NL]"
    using ne join_snoc [of "split_js NL b @ [[]]" "[NL]" "[]"]
    by (simp add: join_Cons join_snoc join_split_js)
  have w: "\<forall>c \<in> set [NL]. isWhiteSpace c" "\<forall>c \<in> set [NL, NL]. isWhiteSpace c"
    by (simp_all add: NL_def isWhiteSpace_def)
  have t1: "trim ([NL] @ b @ [NL]) = b"
    by (rule trim_pad [OF w(1) w(1) assms(1) assms(2)])
  have t2: "trim ([NL] @ b @ [NL, NL]) = b"
    by (rule trim_pad [OF w(1) w(2) assms(1) assms(2)])
  from assms(3) show ?thesis
  proof
    assume "extra = []"
    then show ?thesis using j1 t1 assms(1) by (simp add: storeLines_def)
  next
    assume "extra = [[]]"
    then show ?thesis using j2 t2 assms(1) by (simp add: storeLines_def)
  qed
qed

lemma storeSegments_map:
  assumes "\<forall>sec \<in> set secs. b sec \<noteq> [] \<and> trim (b sec) = b sec"
    and "distinct (map sid secs)"
    and "\<forall>sec \<in> set secs. sid sec \<notin> fst ` set g"
  shows "storeSegments now
           (map (\<lambda>sec. (hl sec, Str (sid sec), [] # split_js NL (b sec) @ [[]])) secs) [[]] g =
         g @ map (\<lambda>sec. (sid sec, \<lparr>content = Some (b sec), lastUpdated = Some now\<rparr>)) secs"
  using assms
proof (induction secs arbitrary: g)
  case Nil
  show ?case by simp
next
  case (Cons sec secs)
  let ?e = "(sid sec, \<lparr>content = Some (b sec), lastUpdated = Some now\<rparr>)"
  have bs: "b sec \<noteq> []" "trim (b sec) = b sec" using Cons.prems(1) by auto
  have new: "sid sec \<notin> fst ` set g" using Cons.prems(3) by simp
  have st: "storeLines now (Str (sid sec))
              (([] # split_js NL (b sec) @ [[]]) @ (if secs = [] then [[]] else [])) g = g @ [?e]"
    using storeLines_body [OF bs, of "if secs = [] then [[]] else []" now "Str (sid sec)" g]
      obj_set_new [OF new]
    by simp
  from Cons.prems(2) have "sid sec \<notin> sid ` set secs" by simp
  then have other: "\<forall>s \<in> set secs. sid s \<noteq> sid sec" by (metis imageI)
  have keys: "\<forall>s \<in> set secs. sid s \<notin> fst ` set (g @ [?e])"
    using Cons.prems(3) other by auto
  have ih: "storeSegments now
           (map (\<lambda>sec. (hl sec, Str (sid sec), [] # split_js NL (b sec) @ [[]])) secs) [[]]
           (g @ [?e]) =
         (g @ [?e]) @ map (\<lambda>sec. (sid sec, \<lparr>content = Some (b sec), lastUpdated = Some now\<rparr>)) secs"
    using Cons.IH [of "g @ [?e]"] Cons.prems(1,2) keys by simp
  show ?case using st ih by simp
qed

lemma exportBody_roundTrip:
  assumes "\<forall>sec \<in> set GDD_SECTIONS. \<forall>c. content_of g (sid sec) = Some c \<and> c \<noteq> [] \<longrightarrow>
             roundTripContent c"
    and "sec \<in> set GDD_SECTIONS"
  shows "roundTripContent (exportBody g sec)"
  using assms placeholder_roundTrip
  by (auto simp: exportBody_def split: option.splits)

lemma markdown_roundtrip_core:
  assumes hdr: "headerOneLine fmt p"
    and cont: "\<forall>sec \<in> set GDD_SECTIONS. \<forall>c. content_of g (sid sec) = Some c \<and> c \<noteq> [] \<longrightarrow>
             roundTripContent c"
  shows "r_gdd (parseMarkdownImport parseDate nowMs nowIso (generateMarkdownExport fmt p g)) =
         map (\<lambda>sec. (sid sec, \<lparr>content = Some (exportBody g sec), lastUpdated = Some nowIso\<rparr>))
           GDD_SECTIONS"
proof -
  let ?mk = "\<lambda>sec. (js ''## '' @ title sec, Str (sid sec),
                    [] # split_js NL (exportBody g sec) @ [[]])"
  let ?segs = "map ?mk GDD_SECTIONS"
  let ?SL = "concat (map (\<lambda>(h, v, body). h # body) ?segs)"
  obtain HL where HL: "\<forall>l \<in> set HL. headingOfLine l = None"
    and HLs: "\<And>rest. split_js NL (exportHeader fmt p @ rest) = HL @ split_js NL rest"
    using header_lines [OF hdr] by blast
  have rh: "\<forall>sec \<in> set GDD_SECTIONS.
              headingOfLine (js ''## '' @ title sec) = Some (Str (sid sec)) \<and> NL \<notin> set (title sec)"
    using registry_headings by (simp add: list_all_iff)
  have rt: "roundTripContent (exportBody g sec)" if "sec \<in> set GDD_SECTIONS" for sec
    using exportBody_roundTrip [OF cont that] .
  have SL: "?SL = concat (map (\<lambda>sec. (js ''## '' @ title sec) #
                       ([] # split_js NL (exportBody g sec) @ [[]])) GDD_SECTIONS)"
    by (simp add: map_concat comp_def)
  have sl: "split_js NL (concat (map (exportSection g) GDD_SECTIONS)) = ?SL @ [[]]"
    unfolding SL using section_lines [of GDD_SECTIONS g] rh by blast
  have lines: "split_js NL (generateMarkdownExport fmt p g) = HL @ ?SL @ [[]]"
    by (simp only: generateMarkdownExport_concat HLs sl)
  have segs_ok: "headingOfLine h = Some v \<and> (\<forall>l \<in> set body. headingOfLine l = None)"
    if "(h, v, body) \<in> set ?segs" for h v body
  proof -
    from that have "(h, v, body) \<in> ?mk ` set GDD_SECTIONS" by simp
    then obtain sec where sec: "sec \<in> set GDD_SECTIONS" and eq: "(h, v, body) = ?mk sec"
      by (rule imageE)
    from eq have e: "h = js ''## '' @ title sec" "v = Str (sid sec)"
        "body = [] # split_js NL (exportBody g sec) @ [[]]"
      by simp_all
    have "list_all (\<lambda>l. headingOfLine l = None) (split_js NL (exportBody g sec))"
      using rt [OF sec] by (simp add: roundTripContent_def)
    then have "\<forall>l \<in> set body. headingOfLine l = None"
      using e heading_none_fixed(1) by (auto simp: list_all_iff)
    then show ?thesis using rh sec e by auto
  qed
  have rest_ok: "\<forall>l \<in> set [[]]. headingOfLine l = None"
    using heading_none_fixed(1) by simp
  have col: "collectSections nowIso (HL @ ?SL @ [[]]) (scanBoundaries (length HL) (?SL @ [[]])) [] =
             storeSegments nowIso ?segs [[]] []"
    by (rule collect_segments [OF segs_ok rest_ok])
  have skip: "scanBoundaries 0 (HL @ ?SL @ [[]]) = scanBoundaries (length HL) (?SL @ [[]])"
    using scan_skip [OF HL, of 0 "?SL @ [[]]"] by simp
  have nonempty: "scanBoundaries (length HL) (?SL @ [[]]) \<noteq> []"
    using rh by (simp add: GDD_SECTIONS_def)
  have bodies: "\<forall>sec \<in> set GDD_SECTIONS. exportBody g sec \<noteq> [] \<and> trim (exportBody g sec) = exportBody g sec"
    using rt by (simp add: roundTripContent_def)
  have store: "storeSegments nowIso ?segs [[]] [] =
         [] @ map (\<lambda>sec. (sid sec, \<lparr>content = Some (exportBody g sec), lastUpdated = Some nowIso\<rparr>))
           GDD_SECTIONS"
    by (rule storeSegments_map [OF bodies registry_distinct]) simp
  show ?thesis
    using col skip nonempty store
    by (simp add: parseMarkdownImport_def lines Let_def split: prod.splits)
qed

lemma content_of_map_sections:
  "content_of (map (\<lambda>sec. (sid sec, \<lparr>content = Some (f sec), lastUpdated = u\<rparr>)) secs) k =
   (case find (\<lambda>s. sid s = k) secs of Some sec \<Rightarrow> Some (f sec) | None \<Rightarrow> None)"
  by (induction secs) (auto simp: content_of_def)

lemma imported_content:
  assumes "headerOneLine fmt p"
    and "\<forall>k \<in> set registry_ids. \<forall>c. content_of g k = Some c \<and> c \<noteq> [] \<longrightarrow> roundTripContent c"
  shows "content_of (r_gdd (parseMarkdownImport parseDate nowMs nowIso
            (generateMarkdownExport fmt p g))) k =
         (if k \<in> set registry_ids
          then (case content_of g k of
                  Some c \<Rightarrow> Some (if c \<noteq> [] then c else placeholder)
                | None \<Rightarrow> Some placeholder)
          else None)"
proof -
  have cont: "\<forall>sec \<in> set GDD_SECTIONS. \<forall>c. content_of g (sid sec) = Some c \<and> c \<noteq> [] \<longrightarrow>
             roundTripContent c"
    using assms(2) by (simp add: registry_ids_def)
  have core: "content_of (r_gdd (parseMarkdownImport parseDate nowMs nowIso
            (generateMarkdownExport fmt p g))) k =
         (case find_section k of Some sec \<Rightarrow> Some (exportBody g sec) | None \<Rightarrow> None)"
    unfolding markdown_roundtrip_core [OF assms(1) cont] find_section_def
    by (rule content_of_map_sections)
  show ?thesis
  proof (cases "find_section k")
    case None
    then have "k \<notin> set registry_ids" by (simp add: find_section_None_iff)
    then show ?thesis using core None by simp
  next
    case (Some sec)
    then have k: "k \<in> set registry_ids" and s: "sid sec = k"
      using find_section_registry [OF Some]
      by (auto simp: find_section_def find_Some_iff)
    show ?thesis using core Some k s
      by (simp add: exportBody_def split: option.splits)
  qed
qed

section \<open>The document store: projects, imports and saved diagrams\<close>

text \<open>
  Claim C9. \<open>createProject\<close> leaves the state as it is when the trimmed name is empty.
  With a name that is not blank, no genre chip or tag and the single platform PC, the
  project has the genre \<open>Unspecified\<close>, and the \<open>overview\<close> section is the only section:
  a level-1 heading with the (trimmed) name, the genre line, the platforms line listing
  PC, and the (trimmed) description.
\<close>

theorem createProject_contract:
  "(trim nameInput = [] \<longrightarrow>
      createProject nameInput descInput checked selectedGenres customTags nowMs iso1 iso2 st = st) \<and>
   (trim nameInput \<noteq> [] \<longrightarrow>
      currentProject (createProject nameInput descInput [js ''PC''] [] [] nowMs iso1 iso2 st) =
        Some \<lparr>p_id = Some nowMs, p_name = trim nameInput, p_genre = js ''Unspecified'',
              p_description = Some (trim descInput), p_platforms = [js ''PC''],
              p_createdAt = iso1, p_updatedAt = iso2\<rparr> \<and>
      gddData (createProject nameInput descInput [js ''PC''] [] [] nowMs iso1 iso2 st) =
        [(js ''overview'',
          \<lparr>content = Some (js ''# '' @ trim nameInput @ [NL, NL] @
                   js ''**Genre:** Unspecified'' @ [NL] @ js ''**Platforms:** PC'' @ [NL, NL] @
                   trim descInput),
           lastUpdated = None\<rparr>)])"
  by (simp add: createProject_def Let_def js_def)

text \<open>The scenario of the specification, and a blank name.\<close>

theorem createProject_contract_witness:
  "trim (js ''Nebula Run'') \<noteq> [] \<and> trim (js ''  '') = [] \<and>
   createProject (js ''  '') (js ''A runner'') [js ''PC''] [] [] 7 (js ''t1'') (js ''t2'') emptyState
     = emptyState \<and>
   gddData (createProject (js ''Nebula Run'') (js ''A runner'') [js ''PC''] [] [] 7 (js ''t1'')
     (js ''t2'') emptyState) =
     [(js ''overview'',
       \<lparr>content = Some (js ''# Nebula Run'' @ [NL, NL] @ js ''**Genre:** Unspecified'' @ [NL] @
                js ''**Platforms:** PC'' @ [NL, NL] @ js ''A runner''),
        lastUpdated = None\<rparr>)]"
proof -
  have t1: "trim (js ''Nebula Run'') = js ''Nebula Run''"
    by (simp add: trim_def trimEnd_def trimStart_def isWhiteSpace_def js_def)
  have t2: "trim (js ''  '') = []"
    by (simp add: trim_def trimEnd_def trimStart_def isWhiteSpace_def js_def)
  have t3: "trim (js ''A runner'') = js ''A runner''"
    by (simp add: trim_def trimEnd_def trimStart_def isWhiteSpace_def js_def)
  show ?thesis
    using createProject_contract [of "js ''Nebula Run''" "js ''A runner''" "[js ''PC'']" "[]" "[]" 7
        "js ''t1''" "js ''t2''" emptyState]
      createProject_contract [of "js ''  ''" "js ''A runner''" "[js ''PC'']" "[]" "[]" 7
        "js ''t1''" "js ''t2''" emptyState]
    unfolding t1 t2 t3 by (simp add: js_def)
qed

text \<open>
  Claim C2, as stated, fails: a snapshot whose \<open>project\<close> field is present and whose
  \<open>gdd\<close> field is absent is reported invalid.
\<close>

theorem json_rejected_with_project_present:
  "get_field (JObject [(js ''project'', JObject [])]) (js ''project'') = Some (JObject []) \<and>
   parseJSONImport (JObject [(js ''project'', JObject [])]) = Inr None"
  by (simp add: parseJSONImport_def js_def)

text \<open>
  Claim C2, amended. For a parsed value other than \<open>null\<close>, \<open>parseJSONImport\<close> reports
  "invalid" and returns nothing exactly when at least one of the fields \<open>project\<close> and
  \<open>gdd\<close> is absent or falsy; when both are present and truthy the parsed value is
  returned as it is.
\<close>

theorem parseJSONImport_invalid_iff:
  "data \<noteq> JNull \<Longrightarrow>
     (parseJSONImport data = Inr None \<longleftrightarrow>
        \<not> truthy (get_field data (js ''project'')) \<or> \<not> truthy (get_field data (js ''gdd''))) \<and>
     (truthy (get_field data (js ''project'')) \<and> truthy (get_field data (js ''gdd'')) \<longrightarrow>
        parseJSONImport data = Inr (Some data))"
  by (simp add: parseJSONImport_def)

text \<open>A snapshot with both fields.\<close>

theorem parseJSONImport_invalid_iff_witness:
  "JObject [(js ''project'', JObject []), (js ''gdd'', JObject [])] \<noteq> JNull \<and>
   truthy (get_field (JObject [(js ''project'', JObject []), (js ''gdd'', JObject [])]) (js ''project'')) \<and>
   truthy (get_field (JObject [(js ''project'', JObject []), (js ''gdd'', JObject [])]) (js ''gdd'')) \<and>
   parseJSONImport (JObject [(js ''project'', JObject []), (js ''gdd'', JObject [])]) =
     Inr (Some (JObject [(js ''project'', JObject []), (js ''gdd'', JObject [])]))"
  using parseJSONImport_invalid_iff [of "JObject [(js ''project'', JObject []), (js ''gdd'', JObject [])]"]
  by (simp add: js_def)

text \<open>
  Claim C4, as stated, fails: importing a snapshot that carries 21 saved diagrams into
  the empty store leaves 21 diagrams in the list.
\<close>

theorem import_exceeds_diagram_bound:
  "length (diagramHistory emptyState) \<le> 20 \<and>
   \<not> length (diagramHistory (importProjectFile (js ''2026-01-03T00:00:00.000Z'') (Some bigSnapshot) emptyState)) \<le> 20"
  by (simp add: importProjectFile_def bigSnapshot_def emptyState_def)

text \<open>
  Claim C4, amended. \<open>saveDiagram\<close> keeps a list of at most 20 entries at most 20 long.
  On a list of exactly 20 it puts the new entry first and drops the last entry; in a
  list ordered newest first that entry has the smallest creation ordinal. Import and
  restore install the diagram list of the snapshot as it is, whatever its length.
\<close>

theorem saveDiagram_bound:
  "(length (diagramHistory st) \<le> 20 \<longrightarrow>
      length (diagramHistory (saveDiagram codeInput t nowMs nowIso st)) \<le> 20) \<and>
   (length (diagramHistory st) = 20 \<and> trim codeInput \<noteq> [] \<longrightarrow>
      diagramHistory (saveDiagram codeInput t nowMs nowIso st) =
        \<lparr>d_id = nowMs, d_type = t, d_label = diagram_label t, d_code = trim codeInput,
         d_createdAt = nowIso\<rparr> # butlast (diagramHistory st)) \<and>
   (diagramHistory st \<noteq> [] \<and> sorted_wrt (\<lambda>a b. d_id b \<le> d_id a) (diagramHistory st) \<longrightarrow>
      (\<forall>d \<in> set (diagramHistory st). d_id (last (diagramHistory st)) \<le> d_id d)) \<and>
   diagramHistory (importProjectFile nowIso (Some (r\<lparr>r_diagramHistory := Some h\<rparr>)) st) = h \<and>
   diagramHistory (loadState (Some (snap\<lparr>s_diagramHistory := Some h\<rparr>)) st) = h"
proof (intro conjI impI)
  assume "length (diagramHistory st) \<le> 20"
  then show "length (diagramHistory (saveDiagram codeInput t nowMs nowIso st)) \<le> 20"
    by (simp add: saveDiagram_def Let_def)
next
  assume "length (diagramHistory st) = 20 \<and> trim codeInput \<noteq> []"
  then show "diagramHistory (saveDiagram codeInput t nowMs nowIso st) =
        \<lparr>d_id = nowMs, d_type = t, d_label = diagram_label t, d_code = trim codeInput,
         d_createdAt = nowIso\<rparr> # butlast (diagramHistory st)"
    by (cases "diagramHistory st") (auto simp add: saveDiagram_def Let_def)
next
  assume a: "diagramHistory st \<noteq> [] \<and> sorted_wrt (\<lambda>a b. d_id b \<le> d_id a) (diagramHistory st)"
  show "\<forall>d \<in> set (diagramHistory st). d_id (last (diagramHistory st)) \<le> d_id d"
  proof
    fix d assume d: "d \<in> set (diagramHistory st)"
    obtain xs x where h: "diagramHistory st = xs @ [x]"
      using a by (metis append_butlast_last_id)
    from a have "\<forall>y \<in> set xs. d_id x \<le> d_id y"
      unfolding h by (simp add: sorted_wrt_append)
    with d show "d_id (last (diagramHistory st)) \<le> d_id d"
      unfolding h by auto
  qed
next
  show "diagramHistory (importProjectFile nowIso (Some (r\<lparr>r_diagramHistory := Some h\<rparr>)) st) = h"
    by (simp add: importProjectFile_def)
next
  show "diagramHistory (loadState (Some (snap\<lparr>s_diagramHistory := Some h\<rparr>)) st) = h"
    by (simp add: loadState_def)
qed

text \<open>Twenty diagrams with the ordinals 20 down to 1, and a new one with ordinal 21.\<close>

theorem saveDiagram_bound_witness:
  "length (diagramHistory (emptyState\<lparr>diagramHistory := map sampleDiagram (rev [1..<21])\<rparr>)) = 20 \<and>
   trim (js ''graph LR'') \<noteq> [] \<and>
   sorted_wrt (\<lambda>a b. d_id b \<le> d_id a) (map sampleDiagram (rev [1..<21])) \<and>
   length (diagramHistory (saveDiagram (js ''graph LR'') (js ''custom'') 21 (js ''now'')
     (emptyState\<lparr>diagramHistory := map sampleDiagram (rev [1..<21])\<rparr>))) \<le> 20 \<and>
   diagramHistory (saveDiagram (js ''graph LR'') (js ''custom'') 21 (js ''now'')
     (emptyState\<lparr>diagramHistory := map sampleDiagram (rev [1..<21])\<rparr>)) =
     \<lparr>d_id = 21, d_type = js ''custom'', d_label = diagram_label (js ''custom''),
      d_code = trim (js ''graph LR''), d_createdAt = js ''now''\<rparr> #
     butlast (map sampleDiagram (rev [1..<21]))"
proof -
  have t: "trim (js ''graph LR'') \<noteq> []"
    by (simp add: trim_def trimEnd_def trimStart_def isWhiteSpace_def js_def)
  have l: "length (diagramHistory (emptyState\<lparr>diagramHistory := map sampleDiagram (rev [1..<21])\<rparr>)) = 20"
    by simp
  have s: "sorted_wrt (\<lambda>a b. d_id b \<le> d_id a) (map sampleDiagram (rev [1..<21]))"
    by (simp add: sorted_wrt_map sampleDiagram_def sorted_wrt_rev)
  show ?thesis
    using saveDiagram_bound [of "emptyState\<lparr>diagramHistory := map sampleDiagram (rev [1..<21])\<rparr>"
        "js ''graph LR''" "js ''custom''" 21 "js ''now''"] t l s
    by simp
qed




section \<open>The headed-markdown import\<close>

text \<open>
  Claim C10. Without a level-1 heading among the first 10 lines the imported project is
  named \<open>Imported Project\<close>; without a line that starts with the genre label among the
  first 20 lines its genre is \<open>Unknown\<close>; without a line that starts with a platforms
  label among the first 20 lines its platforms are \<open>[PC]\<close>; and it has neither an id nor
  a description.
\<close>

theorem parseMarkdownImport_defaults:
  "((\<forall>l \<in> set (take 10 (split_js NL md)). \<not> isH1 (trim l)) \<longrightarrow>
      p_name (r_project (parseMarkdownImport parseDate nowMs nowIso md)) = js ''Imported Project'') \<and>
   ((\<forall>l \<in> set (take 20 (split_js NL md)). \<not> hasLabel (js ''**genre:**'') (trim l)) \<longrightarrow>
      p_genre (r_project (parseMarkdownImport parseDate nowMs nowIso md)) = js ''Unknown'') \<and>
   ((\<forall>l \<in> set (take 20 (split_js NL md)).
        \<not> hasLabel (js ''**platforms:**'') (trim l) \<and> \<not> hasLabel (js ''**platform:**'') (trim l)) \<longrightarrow>
      p_platforms (r_project (parseMarkdownImport parseDate nowMs nowIso md)) = [js ''PC'']) \<and>
   p_id (r_project (parseMarkdownImport parseDate nowMs nowIso md)) = None \<and>
   p_description (r_project (parseMarkdownImport parseDate nowMs nowIso md)) = None"
proof -
  obtain c g p where m: "importedMeta parseDate nowIso (split_js NL md) = (c, g, p)"
    by (cases "importedMeta parseDate nowIso (split_js NL md)") auto
  have name: "(\<forall>l \<in> set (take 10 (split_js NL md)). \<not> isH1 (trim l)) \<Longrightarrow>
      importedName (split_js NL md) = js ''Imported Project''"
  proof -
    assume a: "\<forall>l \<in> set (take 10 (split_js NL md)). \<not> isH1 (trim l)"
    have "find isH1 (map trim (take 10 (split_js NL md))) = None"
      unfolding find_None_iff using a by auto
    then show ?thesis by (simp add: importedName_def)
  qed
  have genre: "(\<forall>l \<in> set (take 20 (split_js NL md)). \<not> hasLabel (js ''**genre:**'') (trim l)) \<Longrightarrow>
      g = []"
    using fold_metaStep_genre [of "take 20 (split_js NL md)" parseDate nowIso "[]" "[]"] m
    by (simp add: importedMeta_def)
  have plat: "(\<forall>l \<in> set (take 20 (split_js NL md)).
        \<not> hasLabel (js ''**platforms:**'') (trim l) \<and> \<not> hasLabel (js ''**platform:**'') (trim l)) \<Longrightarrow>
      p = []"
    using fold_metaStep_platforms [of "take 20 (split_js NL md)" parseDate nowIso "[]" "[]"] m
    by (simp add: importedMeta_def)
  show ?thesis
    using name genre plat
    by (simp add: parseMarkdownImport_def Let_def m)
qed

text \<open>A file of one line of plain text.\<close>

theorem parseMarkdownImport_defaults_witness:
  "split_js NL (js ''Some notes'') = [js ''Some notes''] \<and>
   \<not> isH1 (trim (js ''Some notes'')) \<and>
   \<not> hasLabel (js ''**genre:**'') (trim (js ''Some notes'')) \<and>
   \<not> hasLabel (js ''**platforms:**'') (trim (js ''Some notes'')) \<and>
   \<not> hasLabel (js ''**platform:**'') (trim (js ''Some notes'')) \<and>
   p_name (r_project (parseMarkdownImport (\<lambda>s. None) 0 [] (js ''Some notes''))) = js ''Imported Project'' \<and>
   p_genre (r_project (parseMarkdownImport (\<lambda>s. None) 0 [] (js ''Some notes''))) = js ''Unknown'' \<and>
   p_platforms (r_project (parseMarkdownImport (\<lambda>s. None) 0 [] (js ''Some notes''))) = [js ''PC'']"
proof -
  have h1: "\<forall>l \<in> set (take 10 (split_js NL (js ''Some notes''))). \<not> isH1 (trim l)"
    by (simp add: isH1_def str_eval)
  have h2: "\<forall>l \<in> set (take 20 (split_js NL (js ''Some notes''))). \<not> hasLabel (js ''**genre:**'') (trim l)"
    by (simp add: hasLabel_def asciiLower_def str_eval)
  have h3: "\<forall>l \<in> set (take 20 (split_js NL (js ''Some notes''))).
        \<not> hasLabel (js ''**platforms:**'') (trim l) \<and> \<not> hasLabel (js ''**platform:**'') (trim l)"
    by (simp add: hasLabel_def asciiLower_def str_eval)
  have s: "split_js NL (js ''Some notes'') = [js ''Some notes'']"
    by (simp add: str_eval)
  have e: "\<not> isH1 (trim (js ''Some notes'')) \<and>
   \<not> hasLabel (js ''**genre:**'') (trim (js ''Some notes'')) \<and>
   \<not> hasLabel (js ''**platforms:**'') (trim (js ''Some notes'')) \<and>
   \<not> hasLabel (js ''**platform:**'') (trim (js ''Some notes''))"
    by (simp add: isH1_def hasLabel_def asciiLower_def str_eval)
  show ?thesis
    using parseMarkdownImport_defaults [of "js ''Some notes''" "\<lambda>s. None" 0 "[]"] h1 h2 h3 s e
    by blast
qed

text \<open>
  The scenario of the specification: the heading with the trailing emoji normalises to
  the title of the \<open>gameplay\<close> section, and the text below it becomes that section's
  content. By \<open>heading_boundary_iff\<close>, a heading matches exactly when its normalisation
  is a normalised registry title, or is \<open>constructor\<close>.
\<close>

lemma emoji_heading_matches_gameplay:
  "headingOfLine (js ''## Gameplay Mechanics '' @ [0xD83C, 0xDFAE]) = Some (Str (js ''gameplay'')) \<and>
   map (\<lambda>(k, d). (k, content d)) (r_gdd (parseMarkdownImport (\<lambda>s. None) 0 (js ''now'')
      (js ''## Gameplay Mechanics '' @ [0xD83C, 0xDFAE] @ [NL] @ js ''Jump and run''))) =
     [(js ''gameplay'', Some (js ''Jump and run''))]"
  by (simp add: import_eval knownSectionTitles_eq str_eval norm_eval)

text \<open>
  Claim C6 on the heading \<open>## Constructor\<close>. Its normalisation is \<open>constructor\<close>, which
  is not a normalised registry title, yet the direct read \<open>knownSectionTitles[normalized]\<close>
  finds the property \<open>constructor\<close> that every plain object inherits, so the heading
  becomes a section boundary and its text is stored under the key that the inherited
  function turns into.
\<close>

theorem constructor_heading_is_boundary:
  "normalizeSectionTitle (js ''Constructor'') \<notin> set (map (\<lambda>s. normalizeSectionTitle (title s)) GDD_SECTIONS) \<and>
   scanBoundaries 0 (split_js NL (js ''## Constructor'' @ [NL] @ js ''body'')) =
     [(0, NativeFunction (js ''Object''))] \<and>
   map fst (r_gdd (parseMarkdownImport (\<lambda>s. None) 0 (js ''now'')
      (js ''## Constructor'' @ [NL] @ js ''body''))) = [js ''function Object() { [native code] }'']"
  by (simp add: import_eval knownSectionTitles_eq GDD_SECTIONS_def str_eval norm_eval)

section \<open>Section-fill generation\<close>

text \<open>
  Claim C5, as stated, fails twice. A section whose content starts with a tab is in
  update sub-mode with its instruction, but the prompt holds the trimmed content, not the
  full content. A section whose content is three spaces has non-empty content and a
  non-empty instruction, and is not in update sub-mode.
\<close>

theorem update_prompt_lacks_full_content:
  "content_of (gddData tabState) (js ''art'') = Some (9 # js ''Pixel art'') \<and>
   isUpdate tabState (js ''art'') \<and>
   \<not> js_includes (sectionPrompt (\<lambda>d. d) (js ''November 2, 2026'') tabState sampleProject artSection)
        (9 # js ''Pixel art'') \<and>
   content_of (gddData blankState) (js ''art'') = Some (js ''   '') \<and>
   map_of (sectionPrompts blankState) (js ''art'') = Some (js ''add a palette'') \<and>
   \<not> isUpdate blankState (js ''art'')"
proof -
  have "9 \<notin> set (sectionPrompt (\<lambda>d. d) (js ''November 2, 2026'') tabState sampleProject artSection)"
    by (simp add: prompt_eval input_eval str_eval)
  then have "\<not> js_includes (sectionPrompt (\<lambda>d. d) (js ''November 2, 2026'') tabState sampleProject artSection)
        (9 # js ''Pixel art'')"
    using js_includes_set by fastforce
  moreover have "content_of (gddData tabState) (js ''art'') = Some (9 # js ''Pixel art'')"
    by (simp add: prompt_eval input_eval str_eval)
  moreover have "isUpdate tabState (js ''art'')"
    by (simp add: prompt_eval input_eval str_eval)
  moreover have "content_of (gddData blankState) (js ''art'') = Some (js ''   '')"
    by (simp add: prompt_eval input_eval str_eval)
  moreover have "map_of (sectionPrompts blankState) (js ''art'') = Some (js ''add a palette'')"
    by (simp add: prompt_eval input_eval str_eval)
  moreover have "\<not> isUpdate blankState (js ''art'')"
    by (simp add: prompt_eval input_eval str_eval)
  ultimately show ?thesis by blast
qed

text \<open>
  Claim C5, amended. The update sub-mode is chosen exactly when the target's content is
  non-empty after trimming and its stored custom instruction is non-empty: then the
  prompt is the update template filled with the trimmed content and the instruction,
  and otherwise it is the fresh template filled with the other sections and the
  instruction; neither template ever gives a text of the other. In update sub-mode the
  prompt includes the trimmed content and the instruction. In fresh sub-mode the prompt
  does not depend on the target's content: replacing the target's entry by any other
  entry that keeps the sub-mode leaves the prompt as it is.
\<close>

theorem sectionPrompt_modes:
  "(isUpdate st k \<longleftrightarrow>
      (\<exists>c. content_of (gddData st) k = Some c \<and> trim c \<noteq> []) \<and>
      (\<exists>i. map_of (sectionPrompts st) k = Some i \<and> i \<noteq> [])) \<and>
   (isUpdate st (sid section) \<longrightarrow>
      (\<forall>c. content_of (gddData st) (sid section) = Some c \<longrightarrow>
         js_includes (sectionPrompt fmtDay todayStr st p section) (trim c)) \<and>
      (\<forall>i. map_of (sectionPrompts st) (sid section) = Some i \<longrightarrow>
         js_includes (sectionPrompt fmtDay todayStr st p section) i)) \<and>
   (\<not> isUpdate st (sid section) \<and>
    \<not> isUpdate (st\<lparr>gddData := obj_set (sid section) d (gddData st)\<rparr>) (sid section) \<longrightarrow>
      sectionPrompt fmtDay todayStr (st\<lparr>gddData := obj_set (sid section) d (gddData st)\<rparr>) p section =
      sectionPrompt fmtDay todayStr st p section) \<and>
   (\<forall>c i. content_of (gddData st) (sid section) = Some c \<and> trim c \<noteq> [] \<and>
          map_of (sectionPrompts st) (sid section) = Some i \<and> i \<noteq> [] \<longrightarrow>
      sectionPrompt fmtDay todayStr st p section =
        updatePrompt (promptContext fmtDay todayStr p) todayStr section (trim c) i \<and>
      (\<forall>others i'. sectionPrompt fmtDay todayStr st p section \<noteq>
        freshPrompt (promptContext fmtDay todayStr p) todayStr section others i')) \<and>
   (\<not> ((\<exists>c. content_of (gddData st) (sid section) = Some c \<and> trim c \<noteq> []) \<and>
        (\<exists>i. map_of (sectionPrompts st) (sid section) = Some i \<and> i \<noteq> [])) \<longrightarrow>
      sectionPrompt fmtDay todayStr st p section =
        freshPrompt (promptContext fmtDay todayStr p) todayStr section
          (otherSections (gddData st) (sid section))
          (case map_of (sectionPrompts st) (sid section) of Some i \<Rightarrow> i | None \<Rightarrow> []) \<and>
      (\<forall>e i'. sectionPrompt fmtDay todayStr st p section \<noteq>
        updatePrompt (promptContext fmtDay todayStr p) todayStr section e i'))"
proof -
  have decide: "isUpdate st k \<longleftrightarrow>
      (\<exists>c. content_of (gddData st) k = Some c \<and> trim c \<noteq> []) \<and>
      (\<exists>i. map_of (sectionPrompts st) k = Some i \<and> i \<noteq> [])" for k
    by (auto simp: isUpdate_def existingContentOf_def customPromptOf_def split: option.splits)
  have upd: "sectionPrompt fmtDay todayStr st p section =
        updatePrompt (promptContext fmtDay todayStr p) todayStr section (trim c) i"
    if "content_of (gddData st) (sid section) = Some c" "trim c \<noteq> []"
       "map_of (sectionPrompts st) (sid section) = Some i" "i \<noteq> []" for c i
    using that
    by (simp add: sectionPrompt_def Let_def isUpdate_def existingContentOf_def customPromptOf_def)
  have fresh: "sectionPrompt fmtDay todayStr st p section =
        freshPrompt (promptContext fmtDay todayStr p) todayStr section
          (otherSections (gddData st) (sid section))
          (case map_of (sectionPrompts st) (sid section) of Some i \<Rightarrow> i | None \<Rightarrow> [])"
    if "\<not> isUpdate st (sid section)"
    using that by (simp add: sectionPrompt_def Let_def customPromptOf_def)
  have inc_c: "js_includes (sectionPrompt fmtDay todayStr st p section) (trim c)"
    if u: "isUpdate st (sid section)" and c: "content_of (gddData st) (sid section) = Some c" for c
  proof -
    have e: "existingContentOf st (sid section) = trim c" using c by (simp add: existingContentOf_def)
    have "js_includes (updatePrompt (promptContext fmtDay todayStr p) todayStr section (trim c)
            (customPromptOf st (sid section))) (trim c)"
      unfolding updatePrompt_def by (rule js_includes_join) simp
    then show ?thesis using u e by (simp add: sectionPrompt_def Let_def)
  qed
  have inc_i: "js_includes (sectionPrompt fmtDay todayStr st p section) i"
    if u: "isUpdate st (sid section)" and i: "map_of (sectionPrompts st) (sid section) = Some i" for i
  proof -
    have e: "customPromptOf st (sid section) = i" using i by (simp add: customPromptOf_def)
    have "js_includes (updatePrompt (promptContext fmtDay todayStr p) todayStr section
            (existingContentOf st (sid section)) i) i"
      unfolding updatePrompt_def by (rule js_includes_join) simp
    then show ?thesis using u e by (simp add: sectionPrompt_def Let_def)
  qed
  have indep: "sectionPrompt fmtDay todayStr (st\<lparr>gddData := obj_set (sid section) d (gddData st)\<rparr>) p section =
      sectionPrompt fmtDay todayStr st p section"
    if "\<not> isUpdate st (sid section) \<and>
        \<not> isUpdate (st\<lparr>gddData := obj_set (sid section) d (gddData st)\<rparr>) (sid section)"
    using that by (simp add: sectionPrompt_def Let_def otherSections_obj_set customPromptOf_def)
  show ?thesis
  proof (intro conjI impI allI)
    show "isUpdate st k \<longleftrightarrow>
      (\<exists>c. content_of (gddData st) k = Some c \<and> trim c \<noteq> []) \<and>
      (\<exists>i. map_of (sectionPrompts st) k = Some i \<and> i \<noteq> [])"
      by (rule decide)
  next
    fix c assume "isUpdate st (sid section)" "content_of (gddData st) (sid section) = Some c"
    then show "js_includes (sectionPrompt fmtDay todayStr st p section) (trim c)" by (rule inc_c)
  next
    fix i assume "isUpdate st (sid section)" "map_of (sectionPrompts st) (sid section) = Some i"
    then show "js_includes (sectionPrompt fmtDay todayStr st p section) i" by (rule inc_i)
  next
    assume "\<not> isUpdate st (sid section) \<and>
        \<not> isUpdate (st\<lparr>gddData := obj_set (sid section) d (gddData st)\<rparr>) (sid section)"
    then show "sectionPrompt fmtDay todayStr (st\<lparr>gddData := obj_set (sid section) d (gddData st)\<rparr>) p section =
      sectionPrompt fmtDay todayStr st p section" by (rule indep)
  next
    fix c i
    assume a: "content_of (gddData st) (sid section) = Some c \<and> trim c \<noteq> [] \<and>
          map_of (sectionPrompts st) (sid section) = Some i \<and> i \<noteq> []"
    then show "sectionPrompt fmtDay todayStr st p section =
        updatePrompt (promptContext fmtDay todayStr p) todayStr section (trim c) i"
      using upd by blast
  next
    fix c i others i'
    assume a: "content_of (gddData st) (sid section) = Some c \<and> trim c \<noteq> [] \<and>
          map_of (sectionPrompts st) (sid section) = Some i \<and> i \<noteq> []"
    then have "sectionPrompt fmtDay todayStr st p section =
        updatePrompt (promptContext fmtDay todayStr p) todayStr section (trim c) i"
      using upd by blast
    then show "sectionPrompt fmtDay todayStr st p section \<noteq>
        freshPrompt (promptContext fmtDay todayStr p) todayStr section others i'"
      using templates_differ by simp
  next
    assume n: "\<not> ((\<exists>c. content_of (gddData st) (sid section) = Some c \<and> trim c \<noteq> []) \<and>
        (\<exists>i. map_of (sectionPrompts st) (sid section) = Some i \<and> i \<noteq> []))"
    then have "\<not> isUpdate st (sid section)" using decide [of "sid section"] by simp
    then show "sectionPrompt fmtDay todayStr st p section =
        freshPrompt (promptContext fmtDay todayStr p) todayStr section
          (otherSections (gddData st) (sid section))
          (case map_of (sectionPrompts st) (sid section) of Some i \<Rightarrow> i | None \<Rightarrow> [])"
      by (rule fresh)
  next
    fix e i'
    assume n: "\<not> ((\<exists>c. content_of (gddData st) (sid section) = Some c \<and> trim c \<noteq> []) \<and>
        (\<exists>i. map_of (sectionPrompts st) (sid section) = Some i \<and> i \<noteq> []))"
    then have "\<not> isUpdate st (sid section)" using decide [of "sid section"] by simp
    then have "sectionPrompt fmtDay todayStr st p section =
        freshPrompt (promptContext fmtDay todayStr p) todayStr section
          (otherSections (gddData st) (sid section))
          (case map_of (sectionPrompts st) (sid section) of Some i \<Rightarrow> i | None \<Rightarrow> [])"
      by (rule fresh)
    then show "sectionPrompt fmtDay todayStr st p section \<noteq>
        updatePrompt (promptContext fmtDay todayStr p) todayStr section e i'"
      using templates_differ [of "promptContext fmtDay todayStr p" todayStr "section" e i'] by metis
  qed
qed

text \<open>
  The \<open>art\<close> section with content and an instruction, with blank content and an
  instruction, and without an instruction.
\<close>

theorem sectionPrompt_modes_witness:
  "isUpdate tabState (sid artSection) \<and>
   content_of (gddData tabState) (sid artSection) = Some (9 # js ''Pixel art'') \<and>
   js_includes (sectionPrompt (\<lambda>d. d) (js ''November 2, 2026'') tabState sampleProject artSection)
     (trim (9 # js ''Pixel art'')) \<and>
   \<not> isUpdate overviewState (sid artSection) \<and>
   \<not> isUpdate (overviewState\<lparr>gddData := obj_set (sid artSection)
          \<lparr>content = Some (js ''Pixel art''), lastUpdated = None\<rparr> (gddData overviewState)\<rparr>)
        (sid artSection) \<and>
   sectionPrompt (\<lambda>d. d) (js ''November 2, 2026'')
     (overviewState\<lparr>gddData := obj_set (sid artSection)
          \<lparr>content = Some (js ''Pixel art''), lastUpdated = None\<rparr> (gddData overviewState)\<rparr>)
     sampleProject artSection =
   sectionPrompt (\<lambda>d. d) (js ''November 2, 2026'') overviewState sampleProject artSection \<and>
   trim (9 # js ''Pixel art'') = js ''Pixel art'' \<and>
   map_of (sectionPrompts tabState) (sid artSection) = Some (js ''add a palette'') \<and>
   sectionPrompt (\<lambda>d. d) (js ''November 2, 2026'') tabState sampleProject artSection =
     updatePrompt (promptContext (\<lambda>d. d) (js ''November 2, 2026'') sampleProject)
       (js ''November 2, 2026'') artSection (js ''Pixel art'') (js ''add a palette'') \<and>
   content_of (gddData blankState) (sid artSection) = Some (js ''   '') \<and>
   trim (js ''   '') = [] \<and>
   map_of (sectionPrompts blankState) (sid artSection) = Some (js ''add a palette'') \<and>
   sectionPrompt (\<lambda>d. d) (js ''November 2, 2026'') blankState sampleProject artSection =
     freshPrompt (promptContext (\<lambda>d. d) (js ''November 2, 2026'') sampleProject)
       (js ''November 2, 2026'') artSection [] (js ''add a palette'') \<and>
   sectionPrompt (\<lambda>d. d) (js ''November 2, 2026'') blankState sampleProject artSection \<noteq>
     updatePrompt (promptContext (\<lambda>d. d) (js ''November 2, 2026'') sampleProject)
       (js ''November 2, 2026'') artSection [] (js ''add a palette'')"
proof -
  let ?D = "\<lparr>content = Some (js ''Pixel art''), lastUpdated = None\<rparr>"
  let ?o' = "overviewState\<lparr>gddData := obj_set (sid artSection) ?D (gddData overviewState)\<rparr>"
  have a: "isUpdate tabState (sid artSection)"
    by (simp add: prompt_eval input_eval str_eval)
  have b: "content_of (gddData tabState) (sid artSection) = Some (9 # js ''Pixel art'')"
    by (simp add: prompt_eval input_eval str_eval)
  have c: "\<not> isUpdate overviewState (sid artSection)"
    by (simp add: prompt_eval input_eval str_eval)
  have d: "\<not> isUpdate ?o' (sid artSection)"
    by (simp add: prompt_eval input_eval str_eval)
  have t1: "trim (9 # js ''Pixel art'') = js ''Pixel art''"
    by (simp add: str_eval)
  have t1n: "trim (9 # js ''Pixel art'') \<noteq> []"
    by (simp add: str_eval)
  have i1: "map_of (sectionPrompts tabState) (sid artSection) = Some (js ''add a palette'')"
    by (simp add: input_eval js_def)
  have i1n: "js ''add a palette'' \<noteq> []" by (simp add: js_def)
  have b2: "content_of (gddData blankState) (sid artSection) = Some (js ''   '')"
    by (simp add: prompt_eval input_eval str_eval)
  have t2: "trim (js ''   '') = []"
    by (simp add: str_eval)
  have i2: "map_of (sectionPrompts blankState) (sid artSection) = Some (js ''add a palette'')"
    by (simp add: input_eval js_def)
  have o2: "otherSections (gddData blankState) (sid artSection) = []"
    by (simp add: otherSections_def input_eval js_def split: option.splits)
  have nu: "\<not> ((\<exists>c. content_of (gddData blankState) (sid artSection) = Some c \<and> trim c \<noteq> []) \<and>
        (\<exists>i. map_of (sectionPrompts blankState) (sid artSection) = Some i \<and> i \<noteq> []))"
    using b2 t2 by simp
  note m1 = sectionPrompt_modes [of tabState "sid artSection" artSection "\<lambda>d. d"
      "js ''November 2, 2026''" sampleProject ?D]
  note m2 = sectionPrompt_modes [of overviewState "sid artSection" artSection "\<lambda>d. d"
      "js ''November 2, 2026''" sampleProject ?D]
  note m3 = sectionPrompt_modes [of blankState "sid artSection" artSection "\<lambda>d. d"
      "js ''November 2, 2026''" sampleProject ?D]
  have c1: "js_includes (sectionPrompt (\<lambda>d. d) (js ''November 2, 2026'') tabState sampleProject
      artSection) (trim (9 # js ''Pixel art''))"
    by (rule m1 [THEN conjunct2, THEN conjunct1, rule_format, OF a, THEN conjunct1, rule_format,
        OF b])
  have c2: "sectionPrompt (\<lambda>d. d) (js ''November 2, 2026'') ?o' sampleProject artSection =
      sectionPrompt (\<lambda>d. d) (js ''November 2, 2026'') overviewState sampleProject artSection"
    by (rule m2 [THEN conjunct2, THEN conjunct2, THEN conjunct1, rule_format, OF conjI [OF c d]])
  have c3: "sectionPrompt (\<lambda>d. d) (js ''November 2, 2026'') tabState sampleProject artSection =
     updatePrompt (promptContext (\<lambda>d. d) (js ''November 2, 2026'') sampleProject)
       (js ''November 2, 2026'') artSection (js ''Pixel art'') (js ''add a palette'')"
    using m1 [THEN conjunct2, THEN conjunct2, THEN conjunct2, THEN conjunct1, rule_format,
        of "9 # js ''Pixel art''" "js ''add a palette''", THEN conjunct1] b t1n i1 i1n
    unfolding t1 by simp
  note f3 = m3 [THEN conjunct2, THEN conjunct2, THEN conjunct2, THEN conjunct2, rule_format, OF nu]
  have c4: "sectionPrompt (\<lambda>d. d) (js ''November 2, 2026'') blankState sampleProject artSection =
     freshPrompt (promptContext (\<lambda>d. d) (js ''November 2, 2026'') sampleProject)
       (js ''November 2, 2026'') artSection [] (js ''add a palette'')"
    using f3 [THEN conjunct1] unfolding o2 i2 by simp
  have c5: "sectionPrompt (\<lambda>d. d) (js ''November 2, 2026'') blankState sampleProject artSection \<noteq>
     updatePrompt (promptContext (\<lambda>d. d) (js ''November 2, 2026'') sampleProject)
       (js ''November 2, 2026'') artSection [] (js ''add a palette'')"
    by (rule f3 [THEN conjunct2, rule_format])
  show ?thesis
    by (intro conjI) (rule a b c d c1 c2 c3 c4 c5 t1 t2 i1 i2 b2)+
qed

section \<open>The relevance detector\<close>

text \<open>
  Claim C7 on a message that contains a keyword of the \<open>overview\<close> row letter for letter.
  The keyword has the code unit U+00C3, an upper-case letter; the detector lower-cases
  the message and compares it with the keyword as the table has it, so the keyword is
  not counted and the detector returns the empty list.
\<close>

theorem table_keyword_in_message_not_counted:
  "list_ex (\<lambda>(k, kws). k = js ''overview'' \<and> js ''t'' @ [0xC3, 0xBC] @ js ''r'' \<in> set kws)
     sectionKeywords \<and>
   js_includes (js ''t'' @ [0xC3, 0xBC] @ js ''r nedir'') (js ''t'' @ [0xC3, 0xBC] @ js ''r'') \<and>
   \<not> list_ex (\<lambda>kw. js_includes (js ''t'' @ [0xC3, 0xBC] @ js ''r nedir'') kw) broadKeywords \<and>
   detectRelevantSections overviewState (js ''t'' @ [0xC3, 0xBC] @ js ''r nedir'') = []"
  by (simp add: detect_eval input_eval str_eval)

text \<open>
  Claim C8 on a message that is a broad-question keyword of the table, for a project
  with a filled \<open>overview\<close> section. The same upper-case code unit keeps the lower-cased
  message from matching, and the detector returns the empty list instead of the filled
  sections.
\<close>

theorem broad_keyword_in_message_not_matched:
  "js ''t'' @ [0xC3, 0xBC] @ js ''m'' \<in> set broadKeywords \<and>
   js_includes (js ''t'' @ [0xC3, 0xBC] @ js ''m'') (js ''t'' @ [0xC3, 0xBC] @ js ''m'') \<and>
   map sid (filter (\<lambda>s. filled (gddData overviewState) (sid s)) GDD_SECTIONS) = [js ''overview''] \<and>
   detectRelevantSections overviewState (js ''t'' @ [0xC3, 0xBC] @ js ''m'') = []"
  by (simp add: detect_eval input_eval str_eval)

section \<open>Export followed by import\<close>

text \<open>
  Claim C1, as stated, fails: the export prints a placeholder sentence under the heading
  of a section without content, and the import reads that sentence back as the
  section's content.
\<close>

theorem unfilled_sections_import_as_placeholder:
  "content_of (gddData emptyState) (js ''overview'') = None \<and>
   content_of (r_gdd (parseMarkdownImport (\<lambda>s. None) 0 (js ''2026-01-03T00:00:00.000Z'')
       (generateMarkdownExport (\<lambda>d. d) sampleProject (gddData emptyState)))) (js ''overview'') =
     Some placeholder"
proof -
  have h: "headerOneLine (\<lambda>d. d) sampleProject"
    by (simp add: headerOneLine_def oneLine_def formatDate_def sampleProject_def str_eval)
  have c: "\<forall>k \<in> set registry_ids. \<forall>c. content_of (gddData emptyState) k = Some c \<and> c \<noteq> [] \<longrightarrow>
             roundTripContent c"
    by (simp add: emptyState_def content_of_def)
  have r: "js ''overview'' \<in> set registry_ids"
    by (simp add: registry_ids_def GDD_SECTIONS_def)
  have n: "content_of (gddData emptyState) (js ''overview'') = None"
    by (simp add: emptyState_def content_of_def)
  show ?thesis
    using imported_content [OF h c, of "\<lambda>s. None" 0 "js ''2026-01-03T00:00:00.000Z''" "js ''overview''"]
      r n by simp
qed

text \<open>
  Claim C1, amended. Let the metadata printed in the preamble be free of line feeds, and
  let the content of every filled registry section be its own trim and have no line that
  the import takes for a section heading. Then the import of the export maps every
  registry id to the section's content when the section is filled and to the placeholder
  sentence when it is not, and maps no other id. In particular, when all ten registry
  sections are filled and nothing else holds content, the import gives back the Section
  Content map.
\<close>

theorem export_import_roundtrip:
  assumes "headerOneLine fmt p"
    and "\<forall>k \<in> set registry_ids. \<forall>c. content_of g k = Some c \<and> c \<noteq> [] \<longrightarrow> roundTripContent c"
  shows "(\<forall>k. content_of (r_gdd (parseMarkdownImport parseDate nowMs nowIso
                   (generateMarkdownExport fmt p g))) k =
              (if k \<in> set registry_ids
               then (case content_of g k of
                       Some c \<Rightarrow> Some (if c \<noteq> [] then c else placeholder)
                     | None \<Rightarrow> Some placeholder)
               else None)) \<and>
         ((\<forall>k \<in> set registry_ids. \<exists>c. content_of g k = Some c \<and> c \<noteq> []) \<and>
          (\<forall>k. k \<notin> set registry_ids \<longrightarrow> content_of g k = None) \<longrightarrow>
          (\<forall>k. content_of (r_gdd (parseMarkdownImport parseDate nowMs nowIso
                   (generateMarkdownExport fmt p g))) k = content_of g k))"
proof (intro conjI allI impI)
  fix k
  show "content_of (r_gdd (parseMarkdownImport parseDate nowMs nowIso
                   (generateMarkdownExport fmt p g))) k =
              (if k \<in> set registry_ids
               then (case content_of g k of
                       Some c \<Rightarrow> Some (if c \<noteq> [] then c else placeholder)
                     | None \<Rightarrow> Some placeholder)
               else None)"
    by (rule imported_content [OF assms])
next
  fix k
  assume a: "(\<forall>k \<in> set registry_ids. \<exists>c. content_of g k = Some c \<and> c \<noteq> []) \<and>
          (\<forall>k. k \<notin> set registry_ids \<longrightarrow> content_of g k = None)"
  show "content_of (r_gdd (parseMarkdownImport parseDate nowMs nowIso
                   (generateMarkdownExport fmt p g))) k = content_of g k"
  proof (cases "k \<in> set registry_ids")
    case True
    then obtain c where "content_of g k = Some c" "c \<noteq> []" using a by blast
    then show ?thesis using True by (simp add: imported_content [OF assms])
  next
    case False
    then show ?thesis using a by (simp add: imported_content [OF assms])
  qed
qed

text \<open>A document with ten filled sections.\<close>

theorem export_import_roundtrip_witness:
  "headerOneLine (\<lambda>d. d) sampleProject \<and>
   roundTripContent (js ''To be written'') \<and>
   content_of fullGdd (js ''story'') = Some (js ''To be written'') \<and>
   content_of (r_gdd (parseMarkdownImport (\<lambda>s. None) 0 (js ''2026-01-03T00:00:00.000Z'')
       (generateMarkdownExport (\<lambda>d. d) sampleProject fullGdd))) (js ''story'') =
     Some (js ''To be written'')"
proof -
  have h: "headerOneLine (\<lambda>d. d) sampleProject"
    by (simp add: headerOneLine_def oneLine_def formatDate_def sampleProject_def str_eval)
  have rt: "roundTripContent (js ''To be written'')"
    by (simp add: roundTripContent_def headingOfLine_def isH2_def str_eval)
  have cf: "content_of fullGdd k =
            (if k \<in> set registry_ids then Some (js ''To be written'') else None)" for k
    unfolding fullGdd_def content_of_map_sections registry_ids_def
    by (auto simp: find_None_iff find_Some_iff split: option.splits)
  have c: "\<forall>k \<in> set registry_ids. \<forall>c. content_of fullGdd k = Some c \<and> c \<noteq> [] \<longrightarrow>
             roundTripContent c"
    using rt by (simp add: cf)
  have f: "(\<forall>k \<in> set registry_ids. \<exists>c. content_of fullGdd k = Some c \<and> c \<noteq> []) \<and>
          (\<forall>k. k \<notin> set registry_ids \<longrightarrow> content_of fullGdd k = None)"
    by (simp add: cf js_def)
  have r: "js ''story'' \<in> set registry_ids"
    by (simp add: registry_ids_def GDD_SECTIONS_def)
  have "\<forall>k. content_of (r_gdd (parseMarkdownImport (\<lambda>s. None) 0 (js ''2026-01-03T00:00:00.000Z'')
       (generateMarkdownExport (\<lambda>d. d) sampleProject fullGdd))) k = content_of fullGdd k"
    using export_import_roundtrip [OF h c, of "\<lambda>s. None" 0 "js ''2026-01-03T00:00:00.000Z''"] f
    by blast
  then have "content_of (r_gdd (parseMarkdownImport (\<lambda>s. None) 0 (js ''2026-01-03T00:00:00.000Z'')
       (generateMarkdownExport (\<lambda>d. d) sampleProject fullGdd))) (js ''story'') =
     Some (js ''To be written'')"
    using cf [of "js ''story''"] r by simp
  then show ?thesis
    using h rt cf [of "js ''story''"] r by simp
qed

end
